theory Spec2Isabelle
  imports Main "HOL-Library.Sublist" "HOL-Library.Monad_Syntax"
begin

section \<open>Python strings\<close>

text \<open>
  A Python \<open>str\<close> is modelled as a \<open>string\<close> (a list of \<open>char\<close>); a \<open>char\<close> is one of
  the 256 code points of Latin-1, which covers every literal of \<open>backend/main.py\<close>.
\<close>

definition nl :: char where
  "nl = CHR 0x0A"

definition whitespace_chars :: "char list" where
  "whitespace_chars =
     [CHR 0x09, CHR 0x0A, CHR 0x0B, CHR 0x0C, CHR 0x0D, CHR 0x1C, CHR 0x1D, CHR 0x1E, CHR 0x1F,
      CHR 0x20, CHR 0x85, CHR 0xA0]"

definition py_isspace :: "char \<Rightarrow> bool" where
  "py_isspace c = (c \<in> set whitespace_chars)"

text \<open>\<open>s.strip()\<close>: leading and trailing whitespace removed.\<close>

definition strip :: "string \<Rightarrow> string" where
  "strip s = rev (dropWhile py_isspace (rev (dropWhile py_isspace s)))"

text \<open>\<open>s.lower()\<close>: on Latin-1 the letters A-Z and the accented capitals move up by 32.\<close>

definition lower_char :: "char \<Rightarrow> char" where
  "lower_char c =
     (let n = (of_char c :: nat)
      in if (65 \<le> n \<and> n \<le> 90) \<or> (192 \<le> n \<and> n \<le> 222 \<and> n \<noteq> 215)
         then char_of (n + 32) else c)"

definition lower :: "string \<Rightarrow> string" where
  "lower s = map lower_char s"

text \<open>\<open>needle in hay\<close> on strings: \<open>needle\<close> occurs as a contiguous run of \<open>hay\<close>.\<close>

fun py_in :: "string \<Rightarrow> string \<Rightarrow> bool" where
  "py_in needle [] = (needle = [])"
| "py_in needle (c # cs) = (prefix needle (c # cs) \<or> py_in needle cs)"

text \<open>\<open>sep.join(xs)\<close>.\<close>

fun join :: "string \<Rightarrow> string list \<Rightarrow> string" where
  "join sep [] = []"
| "join sep [x] = x"
| "join sep (x # y # ys) = x @ sep @ join sep (y # ys)"

text \<open>\<open>s.split('\n')\<close>: the pieces between line feeds.\<close>

fun split_nl :: "string \<Rightarrow> string list" where
  "split_nl [] = [[]]"
| "split_nl (c # cs) =
     (if c = nl then [] # split_nl cs
      else (case split_nl cs of [] \<Rightarrow> [[c]] | l # ls \<Rightarrow> (c # l) # ls))"

section \<open>The tools\<close>

text \<open>
  \<open>log_interaction_tool\<close>, with its eleven parameters in the order of the source's
  signature. An \<open>Optional\<close> parameter is an \<open>option\<close>; Python's truth test of a string
  or a list is non-emptiness.
\<close>

definition sentiment_display :: "string option \<Rightarrow> string" where
  "sentiment_display hcpSentiment =
     (case hcpSentiment of
        None \<Rightarrow> ''N/A''
      | Some s \<Rightarrow> if s \<noteq> [] \<and> strip s \<noteq> [] \<and> strip s \<noteq> ''N/A'' then strip s else ''N/A'')"

definition str_or_na :: "string \<Rightarrow> string" where
  "str_or_na s = (if s \<noteq> [] then s else ''N/A'')"

definition opt_or_na :: "string option \<Rightarrow> string" where
  "opt_or_na v = (case v of None \<Rightarrow> ''N/A'' | Some s \<Rightarrow> if s \<noteq> [] then s else ''N/A'')"

definition list_or_na :: "string list option \<Rightarrow> string" where
  "list_or_na v =
     (let xs = (case v of None \<Rightarrow> [] | Some ys \<Rightarrow> ys)
      in if xs \<noteq> [] then join '', '' xs else ''N/A'')"

definition log_interaction_tool ::
  "string \<Rightarrow> string \<Rightarrow> string \<Rightarrow> string option \<Rightarrow> string \<Rightarrow> string list option \<Rightarrow>
   string list option \<Rightarrow> string list option \<Rightarrow> string option \<Rightarrow> string option \<Rightarrow>
   string option \<Rightarrow> string" where
  "log_interaction_tool hcpName interactionDate topicsDiscussed interactionTime interactionType
     attendees materialsShared samplesDistributed hcpSentiment outcomes followUpActions =
     ''**HCP:** '' @ str_or_na hcpName @ [nl] @
     ''**Date:** '' @ str_or_na interactionDate @ [nl] @
     ''**Time:** '' @ opt_or_na interactionTime @ [nl] @
     ''**Type:** '' @ str_or_na interactionType @ [nl] @
     ''**Attendees:** '' @ list_or_na attendees @ [nl] @
     ''**Topics:** '' @ str_or_na topicsDiscussed @ [nl] @
     ''**Materials Shared:** '' @ list_or_na materialsShared @ [nl] @
     ''**Samples Distributed:** '' @ list_or_na samplesDistributed @ [nl] @
     ''**Sentiment:** '' @ sentiment_display hcpSentiment @ [nl] @
     ''**Outcomes:** '' @ opt_or_na outcomes @ [nl] @
     ''**Follow-up:** '' @ opt_or_na followUpActions"

definition ask_clarifying_question_tool :: "string \<Rightarrow> string" where
  "ask_clarifying_question_tool question = question"

definition summarize_interaction_tool :: "string \<Rightarrow> string" where
  "summarize_interaction_tool text =
     ''Summary of provided text: '' @ [CHR 0x27] @ take 100 text @ ''...'' @ [CHR 0x27] @
     '' (mock summary)''"

definition edit_interaction_tool :: "string \<Rightarrow> string \<Rightarrow> string \<Rightarrow> string" where
  "edit_interaction_tool interaction_id field_to_edit new_value =
     ''Mock: Interaction '' @ interaction_id @ '' field '' @ [CHR 0x27] @ field_to_edit @
     [CHR 0x27] @ '' updated to '' @ [CHR 0x27] @ new_value @ [CHR 0x27] @ ''.''"

definition retrieve_hcp_info_tool :: "string \<Rightarrow> string" where
  "retrieve_hcp_info_tool hcp_name =
     ''Mock: Retrieved info for '' @ hcp_name @
     '': Speciality: Cardiology, Location: City Hospital.''"

subsection \<open>The draft template of the specification\<close>




text \<open>A text field shows \<open>N/A\<close> when it is missing or empty, and itself otherwise.\<close>

definition shown :: "string option \<Rightarrow> string" where
  "shown v = (if v = None \<or> v = Some [] then ''N/A'' else the v)"

text \<open>A list field shows \<open>N/A\<close> when it is missing or empty, and is comma-joined otherwise.\<close>

definition shown_list :: "string list option \<Rightarrow> string" where
  "shown_list v = (if v = None \<or> v = Some [] then ''N/A'' else join '', '' (the v))"

text \<open>
  The sentiment shows \<open>N/A\<close> when it is missing, blank or already \<open>N/A\<close>, and is
  shown without its surrounding whitespace otherwise.
\<close>

definition shown_sentiment :: "string option \<Rightarrow> string" where
  "shown_sentiment v =
     (if v = None \<or> strip (the v) = [] \<or> strip (the v) = ''N/A'' then ''N/A''
      else strip (the v))"

definition field_values ::
  "string \<Rightarrow> string \<Rightarrow> string \<Rightarrow> string option \<Rightarrow> string \<Rightarrow> string list option \<Rightarrow>
   string list option \<Rightarrow> string list option \<Rightarrow> string option \<Rightarrow> string option \<Rightarrow>
   string option \<Rightarrow> string list" where
  "field_values hcpName interactionDate topicsDiscussed interactionTime interactionType
     attendees materialsShared samplesDistributed hcpSentiment outcomes followUpActions =
     [shown (Some hcpName), shown (Some interactionDate), shown interactionTime,
      shown (Some interactionType), shown_list attendees, shown (Some topicsDiscussed),
      shown_list materialsShared, shown_list samplesDistributed, shown_sentiment hcpSentiment,
      shown outcomes, shown followUpActions]"

section \<open>Messages and tool calls\<close>

text \<open>
  The argument values a tool call carries (JSON from the language model): \<open>None\<close>, a
  string or a list. A dictionary of arguments is an association list in insertion order.
\<close>

datatype pyval = PNone | PStr string | PList "pyval list"

type_synonym args = "(string \<times> pyval) list"

datatype tool_call = ToolCall (tc_name: string) (tc_args: args) (tc_id: string)

text \<open>
  The four message classes of the conversation. An \<open>AIMessage\<close> carries its content and
  its \<open>tool_calls\<close>; a \<open>ToolMessage\<close> its content and its \<open>tool_call_id\<close>.
\<close>

datatype message =
    SystemMessage string
  | HumanMessage string
  | AIMessage string "tool_call list"
  | ToolMessage string string

subsection \<open>Python's \<open>repr\<close> of the arguments\<close>

definition hex_digit :: "nat \<Rightarrow> char" where
  "hex_digit n = ''0123456789abcdef'' ! n"

definition repr_char :: "char \<Rightarrow> char \<Rightarrow> string" where
  "repr_char q c =
     (let n = (of_char c :: nat)
      in if c = q \<or> c = CHR 0x5C then [CHR 0x5C, c]
         else if n = 9 then [CHR 0x5C, CHR ''t'']
         else if n = 10 then [CHR 0x5C, CHR ''n'']
         else if n = 13 then [CHR 0x5C, CHR ''r'']
         else if n < 32 \<or> n = 127 \<or> (128 \<le> n \<and> n \<le> 160) \<or> n = 173
           then [CHR 0x5C, CHR ''x'', hex_digit (n div 16), hex_digit (n mod 16)]
         else [c])"

definition repr_str :: "string \<Rightarrow> string" where
  "repr_str s =
     (let q = (if CHR 0x27 \<in> set s \<and> CHR 0x22 \<notin> set s then CHR 0x22 else CHR 0x27)
      in [q] @ concat (map (repr_char q) s) @ [q])"

fun repr :: "pyval \<Rightarrow> string" where
  "repr PNone = ''None''"
| "repr (PStr s) = repr_str s"
| "repr (PList xs) = ''['' @ join '', '' (map repr xs) @ '']''"

definition repr_dict :: "args \<Rightarrow> string" where
  "repr_dict a =
     [CHR 0x7B] @ join '', '' (map (\<lambda>(k, v). repr_str k @ '': '' @ repr v) a) @ [CHR 0x7D]"

subsection \<open>Invoking a tool with a dictionary of arguments\<close>

text \<open>
  \<open>tool.ainvoke(tool_args)\<close> checks the dictionary against the parameters of the
  function before it calls it: a required parameter has to be there, a value has to
  have the parameter's type, an absent optional parameter takes its default and a key
  that names no parameter is ignored. A dictionary that fails the check raises; the
  binders below return \<open>None\<close> there.
\<close>

definition required_str :: "args \<Rightarrow> string \<Rightarrow> string option" where
  "required_str a k = (case map_of a k of Some (PStr s) \<Rightarrow> Some s | _ \<Rightarrow> None)"

definition defaulted_str :: "args \<Rightarrow> string \<Rightarrow> string \<Rightarrow> string option" where
  "defaulted_str a k d =
     (case map_of a k of None \<Rightarrow> Some d | Some (PStr s) \<Rightarrow> Some s | _ \<Rightarrow> None)"

definition optional_str :: "args \<Rightarrow> string \<Rightarrow> string option option" where
  "optional_str a k =
     (case map_of a k of
        None \<Rightarrow> Some None
      | Some PNone \<Rightarrow> Some None
      | Some (PStr s) \<Rightarrow> Some (Some s)
      | Some (PList xs) \<Rightarrow> None)"

fun str_list :: "pyval list \<Rightarrow> string list option" where
  "str_list [] = Some []"
| "str_list (PStr s # vs) = map_option ((#) s) (str_list vs)"
| "str_list (v # vs) = None"

definition optional_str_list :: "args \<Rightarrow> string \<Rightarrow> string list option option" where
  "optional_str_list a k =
     (case map_of a k of
        None \<Rightarrow> Some None
      | Some PNone \<Rightarrow> Some None
      | Some (PList xs) \<Rightarrow> map_option Some (str_list xs)
      | Some (PStr s) \<Rightarrow> None)"

text \<open>
  The text \<open>str(e)\<close> of the exception a rejected dictionary raises is the framework's
  and not fixed by the source; it is the parameter \<open>exc\<close>, from the tool's name and the
  dictionary. A tool invocation returns \<open>Inl\<close> of that text, or \<open>Inr\<close> of the tool's result.
\<close>

type_synonym exc_text = "string \<Rightarrow> args \<Rightarrow> string"

definition bind_log_interaction_tool :: "args \<Rightarrow> string option" where
  "bind_log_interaction_tool a =
     do {
       hcpName \<leftarrow> required_str a ''hcpName'';
       interactionDate \<leftarrow> required_str a ''interactionDate'';
       topicsDiscussed \<leftarrow> required_str a ''topicsDiscussed'';
       interactionTime \<leftarrow> optional_str a ''interactionTime'';
       interactionType \<leftarrow> defaulted_str a ''interactionType'' ''Meeting'';
       attendees \<leftarrow> optional_str_list a ''attendees'';
       materialsShared \<leftarrow> optional_str_list a ''materialsShared'';
       samplesDistributed \<leftarrow> optional_str_list a ''samplesDistributed'';
       hcpSentiment \<leftarrow> optional_str a ''hcpSentiment'';
       outcomes \<leftarrow> optional_str a ''outcomes'';
       followUpActions \<leftarrow> optional_str a ''followUpActions'';
       Some (log_interaction_tool hcpName interactionDate topicsDiscussed interactionTime
               interactionType attendees materialsShared samplesDistributed hcpSentiment
               outcomes followUpActions)
     }"

definition raise_or :: "exc_text \<Rightarrow> string \<Rightarrow> args \<Rightarrow> string option \<Rightarrow> string + string" where
  "raise_or exc tool_name a r = (case r of None \<Rightarrow> Inl (exc tool_name a) | Some out \<Rightarrow> Inr out)"

definition ainvoke_log_interaction_tool :: "exc_text \<Rightarrow> args \<Rightarrow> string + string" where
  "ainvoke_log_interaction_tool exc a =
     raise_or exc ''log_interaction_tool'' a (bind_log_interaction_tool a)"

definition ainvoke_ask_clarifying_question_tool :: "exc_text \<Rightarrow> args \<Rightarrow> string + string" where
  "ainvoke_ask_clarifying_question_tool exc a =
     raise_or exc ''ask_clarifying_question_tool'' a
       (map_option ask_clarifying_question_tool (required_str a ''question''))"

definition ainvoke_summarize_interaction_tool :: "exc_text \<Rightarrow> args \<Rightarrow> string + string" where
  "ainvoke_summarize_interaction_tool exc a =
     raise_or exc ''summarize_interaction_tool'' a
       (map_option summarize_interaction_tool (required_str a ''text''))"

definition ainvoke_edit_interaction_tool :: "exc_text \<Rightarrow> args \<Rightarrow> string + string" where
  "ainvoke_edit_interaction_tool exc a =
     raise_or exc ''edit_interaction_tool'' a
       (do {
          interaction_id \<leftarrow> required_str a ''interaction_id'';
          field_to_edit \<leftarrow> required_str a ''field_to_edit'';
          new_value \<leftarrow> required_str a ''new_value'';
          Some (edit_interaction_tool interaction_id field_to_edit new_value)
        })"

definition ainvoke_retrieve_hcp_info_tool :: "exc_text \<Rightarrow> args \<Rightarrow> string + string" where
  "ainvoke_retrieve_hcp_info_tool exc a =
     raise_or exc ''retrieve_hcp_info_tool'' a
       (map_option retrieve_hcp_info_tool (required_str a ''hcp_name''))"

text \<open>The names of the list \<open>tools\<close>.\<close>

definition tools :: "string list" where
  "tools =
     [''log_interaction_tool'', ''ask_clarifying_question_tool'', ''summarize_interaction_tool'',
      ''edit_interaction_tool'', ''retrieve_hcp_info_tool'']"

section \<open>The agent graph\<close>

text \<open>
  The language model is a parameter: its \<open>k\<close>-th invocation of the turn, on the messages
  it is given, returns the content and the tool calls of an \<open>AIMessage\<close>, or raises
  (\<open>None\<close>).
\<close>

type_synonym llm = "nat \<Rightarrow> message list \<Rightarrow> (string \<times> tool_call list) option"

datatype run_error = IndexError | LLMInvocationError | GraphRecursionError

text \<open>
  \<open>AgentState\<close> has the one field \<open>messages\<close>, declared without a reducer: the graph
  keeps the last value written to it, so the list a node returns under \<open>messages\<close>
  replaces the list of the state.
\<close>

definition update_messages :: "message list \<Rightarrow> message list \<Rightarrow> message list" where
  "update_messages state_messages returned = returned"

text \<open>\<open>call_llm_node\<close> returns the list that holds the response alone.\<close>

definition call_llm_node :: "llm \<Rightarrow> nat \<Rightarrow> message list \<Rightarrow> run_error + message list" where
  "call_llm_node llm_with_tools k messages =
     (case llm_with_tools k messages of
        None \<Rightarrow> Inl LLMInvocationError
      | Some (content, tool_calls) \<Rightarrow> Inr [AIMessage content tool_calls])"

text \<open>The body of the \<open>try\<close> in \<open>call_tool_node\<close>, with its \<open>except\<close>.\<close>

definition tool_output_content :: "exc_text \<Rightarrow> tool_call \<Rightarrow> string" where
  "tool_output_content exc tool_call =
     (let tool_name = tc_name tool_call; tool_args = tc_args tool_call
      in case (if tool_name = ''log_interaction_tool''
                 then ainvoke_log_interaction_tool exc tool_args
               else if tool_name = ''ask_clarifying_question_tool''
                 then ainvoke_ask_clarifying_question_tool exc tool_args
               else if tool_name = ''summarize_interaction_tool''
                 then ainvoke_summarize_interaction_tool exc tool_args
               else if tool_name = ''edit_interaction_tool''
                 then ainvoke_edit_interaction_tool exc tool_args
               else if tool_name = ''retrieve_hcp_info_tool''
                 then ainvoke_retrieve_hcp_info_tool exc tool_args
               else Inr (''Unknown tool: '' @ tool_name)) of
           Inr out \<Rightarrow> out
         | Inl e \<Rightarrow> ''Error executing tool '' @ tool_name @ '': '' @ e)"

fun tool_outputs :: "exc_text \<Rightarrow> tool_call list \<Rightarrow> message list" where
  "tool_outputs exc [] = []"
| "tool_outputs exc (tool_call # rest) =
     ToolMessage (tool_output_content exc tool_call) (tc_id tool_call) # tool_outputs exc rest"

definition call_tool_node :: "exc_text \<Rightarrow> message list \<Rightarrow> run_error + message list" where
  "call_tool_node exc messages =
     (if messages = [] then Inl IndexError
      else case last messages of
             AIMessage content tool_calls \<Rightarrow>
               if tool_calls \<noteq> [] then Inr (messages @ tool_outputs exc tool_calls)
               else Inr messages
           | _ \<Rightarrow> Inr messages)"

definition should_continue :: "message list \<Rightarrow> run_error + string" where
  "should_continue messages =
     (if messages = [] then Inl IndexError
      else case last messages of
             AIMessage content tool_calls \<Rightarrow>
               if tool_calls \<noteq> [] then Inr ''continue'' else Inr ''end''
           | _ \<Rightarrow> Inr ''end'')"

definition mentions_question :: "string \<Rightarrow> bool" where
  "mentions_question content =
     (py_in ''question'' (lower content) \<or> py_in ''clarify'' (lower content))"

definition should_continue_after_tool :: "message list \<Rightarrow> run_error + string" where
  "should_continue_after_tool messages =
     (if messages = [] then Inl IndexError
      else case last messages of
             ToolMessage content tool_call_id \<Rightarrow>
               if mentions_question content then Inr ''loop_to_llm''
               else if py_in ''**HCP:**'' content \<and> py_in ''**Date:**'' content then Inr ''end''
               else Inr ''end''
           | _ \<Rightarrow> Inr ''end'')"

text \<open>
  The compiled graph: entry at \<open>llm\<close>; from \<open>llm\<close> the edge \<open>continue\<close> leads to
  \<open>tools\<close> and \<open>end\<close> ends the run; from \<open>tools\<close> the edge \<open>loop_to_llm\<close> leads to
  \<open>llm\<close> and \<open>end\<close> ends the run. The run may execute \<open>limit\<close> nodes and raises
  \<open>GraphRecursionError\<close> when it would need another one; \<open>k\<close> counts the invocations
  of the language model so far.
\<close>

datatype node = Llm | Tools

fun run_from :: "llm \<Rightarrow> exc_text \<Rightarrow> nat \<Rightarrow> node \<Rightarrow> nat \<Rightarrow> message list \<Rightarrow> run_error + message list" where
  "run_from llm_with_tools exc 0 at k messages = Inl GraphRecursionError"
| "run_from llm_with_tools exc (Suc limit) Llm k messages =
     (case call_llm_node llm_with_tools k messages of
        Inl e \<Rightarrow> Inl e
      | Inr returned \<Rightarrow>
          (let messages' = update_messages messages returned
           in case should_continue messages' of
                Inl e \<Rightarrow> Inl e
              | Inr edge \<Rightarrow>
                  if edge = ''continue''
                  then run_from llm_with_tools exc limit Tools (Suc k) messages'
                  else Inr messages'))"
| "run_from llm_with_tools exc (Suc limit) Tools k messages =
     (case call_tool_node exc messages of
        Inl e \<Rightarrow> Inl e
      | Inr returned \<Rightarrow>
          (let messages' = update_messages messages returned
           in case should_continue_after_tool messages' of
                Inl e \<Rightarrow> Inl e
              | Inr edge \<Rightarrow>
                  if edge = ''loop_to_llm''
                  then run_from llm_with_tools exc limit Llm k messages'
                  else Inr messages'))"

definition app_graph :: "llm \<Rightarrow> exc_text \<Rightarrow> nat \<Rightarrow> message list \<Rightarrow> run_error + message list" where
  "app_graph llm_with_tools exc limit messages = run_from llm_with_tools exc limit Llm 0 messages"

section \<open>The chat endpoint\<close>

text \<open>
  A \<open>ChatMessage\<close> of the history with its four fields, and the \<open>ChatResponse\<close> with
  its \<open>reply\<close> and \<open>type\<close>; the \<open>id\<close> of a response is a fresh random UUID and is
  left out.
\<close>

datatype ChatMessage =
  ChatMessage (msg_id: string) (msg_text: string) (sender: string) (msg_type: string)

datatype ChatResponse = ChatResponse (reply: string) (response_type: string)

text \<open>
  An \<open>HTTPException\<close> with its status code and detail. The detail of the status 500 of
  the chat endpoint is \<open>Error processing chat:\<close> followed by the text of the exception
  caught: of an error of the graph run, or of the exception of a rejected tool
  invocation, whose text is known.
\<close>

datatype detail = Detail string | ErrorProcessingChat run_error

datatype http_exception = HTTPException (status_code: nat) (detail: detail)

definition system_prompt :: string where
  "system_prompt =
     ''You are a helpful AI assistant for logging interactions with Healthcare Professionals (HCPs). '' @
     ''Your primary goal is to extract key details from the user'' @ [CHR 0x27] @
     ''s conversation (HCP name, date, time, attendees, '' @
     ''topics discussed, materials/samples, sentiment, outcomes, follow-up actions). '' @
     ''Once you have sufficient information for a complete log, offer to draft a summary in a structured format by calling the `log_interaction_tool`. '' @
     ''If you don'' @ [CHR 0x27] @
     ''t have enough information, ask clarifying questions using `ask_clarifying_question_tool`. '' @
     ''When drafting a log, ensure all parameters for `log_interaction_tool` are provided. '' @
     ''Always respond concisely and directly address the user'' @ [CHR 0x27] @ ''s query. '' @
     ''**IMPORTANT: When extracting dates for `log_interaction_tool`, always use the DD-MM-YYYY format.** '' @
     ''**IMPORTANT: When extracting times for `log_interaction_tool`, always use the HH:MM format.**''"

fun history_messages :: "ChatMessage list \<Rightarrow> message list" where
  "history_messages [] = []"
| "history_messages (msg # rest) =
     (if sender msg = ''user'' then HumanMessage (msg_text msg) # history_messages rest
      else if sender msg = ''ai'' then AIMessage (msg_text msg) [] # history_messages rest
      else history_messages rest)"

definition langchain_messages :: "string \<Rightarrow> ChatMessage list \<Rightarrow> message list" where
  "langchain_messages user_message_text chat_history_from_frontend =
     SystemMessage system_prompt # history_messages chat_history_from_frontend @
     [HumanMessage user_message_text]"

definition is_draft_text :: "string \<Rightarrow> bool" where
  "is_draft_text reply_text =
     (py_in ''**HCP:**'' reply_text \<and> py_in ''**Date:**'' reply_text \<and>
      py_in ''**Topics:**'' reply_text)"

text \<open>
  The branches of \<open>log_interaction_chat\<close> on the last message of the final state: the
  reply and its type, or the exception raised inside the \<open>try\<close>.
\<close>

fun agent_response :: "exc_text \<Rightarrow> message \<Rightarrow> detail + ChatResponse" where
  "agent_response exc (AIMessage content tool_calls) =
     (case tool_calls of
        tool_call # rest \<Rightarrow>
          (let tool_name = tc_name tool_call; tool_args = tc_args tool_call
           in if tool_name = ''log_interaction_tool''
              then (case ainvoke_log_interaction_tool exc tool_args of
                      Inl e \<Rightarrow> Inl (Detail (''Error processing chat: '' @ e))
                    | Inr reply_text \<Rightarrow> Inr (ChatResponse reply_text ''draft''))
              else Inr (ChatResponse
                          (''AI decided to call tool: '' @ tool_name @ '' with args: '' @
                           repr_dict tool_args @ ''. Awaiting tool execution output.'')
                          ''text''))
      | [] \<Rightarrow>
          Inr (ChatResponse content (if is_draft_text content then ''draft'' else ''text'')))"
| "agent_response exc (ToolMessage content tool_call_id) =
     Inr (ChatResponse content
            (if is_draft_text content then ''draft''
             else if mentions_question content then ''text''
             else ''text''))"
| "agent_response exc (HumanMessage content) = Inr (ChatResponse content ''text'')"
| "agent_response exc (SystemMessage content) =
     Inr (ChatResponse (''Sorry, I couldn'' @ [CHR 0x27] @ ''t process that request.'') ''text'')"

definition log_interaction_chat ::
  "llm \<Rightarrow> exc_text \<Rightarrow> nat \<Rightarrow> string \<Rightarrow> ChatMessage list \<Rightarrow> http_exception + ChatResponse" where
  "log_interaction_chat llm_with_tools exc limit user_message_text chat_history_from_frontend =
     (if strip user_message_text = [] then Inl (HTTPException 400 (Detail ''Message cannot be empty.''))
      else case app_graph llm_with_tools exc limit
                  (langchain_messages user_message_text chat_history_from_frontend) of
             Inl e \<Rightarrow> Inl (HTTPException 500 (ErrorProcessingChat e))
           | Inr final_messages \<Rightarrow>
               if final_messages = [] then Inl (HTTPException 500 (ErrorProcessingChat IndexError))
               else (case agent_response exc (last final_messages) of
                       Inl d \<Rightarrow> Inl (HTTPException 500 d)
                     | Inr response \<Rightarrow> Inr response))"

subsection \<open>Sample collaborators\<close>

text \<open>
  Concrete collaborators for the examples: an exception text, a model that answers
  \<open>Hello!\<close>, and a model that first requests one tool call and then answers \<open>Done.\<close>.
\<close>

definition sample_exc :: exc_text where
  "sample_exc tool_name a = ''validation error for '' @ tool_name"

definition llm_hello :: llm where
  "llm_hello k messages = Some (''Hello!'', [])"

definition llm_one_call :: "tool_call \<Rightarrow> llm" where
  "llm_one_call tool_call k messages =
     (if k = 0 then Some ('''', [tool_call]) else Some (''Done.'', []))"

definition llm_raises :: llm where
  "llm_raises k messages = None"


section \<open>Dates and times\<close>

text \<open>
  \<open>datetime.date\<close> and \<open>datetime.time\<close> (without time zone) with the ranges their
  constructors check.
\<close>

record datetime_date =
  year :: nat
  month :: nat
  day :: nat

record datetime_time =
  hour :: nat
  minute :: nat
  second :: nat
  microsecond :: nat

definition is_leap :: "nat \<Rightarrow> bool" where
  "is_leap y = (y mod 4 = 0 \<and> (y mod 100 \<noteq> 0 \<or> y mod 400 = 0))"

definition days_in_month :: "nat \<Rightarrow> nat \<Rightarrow> nat" where
  "days_in_month y m =
     (if m = 2 then (if is_leap y then 29 else 28)
      else if m = 4 \<or> m = 6 \<or> m = 9 \<or> m = 11 then 30 else 31)"

definition valid_date :: "datetime_date \<Rightarrow> bool" where
  "valid_date d =
     (1 \<le> year d \<and> year d \<le> 9999 \<and> 1 \<le> month d \<and> month d \<le> 12 \<and>
      1 \<le> day d \<and> day d \<le> days_in_month (year d) (month d))"

definition valid_time :: "datetime_time \<Rightarrow> bool" where
  "valid_time t = (hour t < 24 \<and> minute t < 60 \<and> second t < 60 \<and> microsecond t < 1000000)"

subsection \<open>\<open>strftime\<close>\<close>

text \<open>
  The directives \<open>%d\<close>, \<open>%m\<close>, \<open>%H\<close> and \<open>%M\<close> print two digits, padded with a zero.
  The directive \<open>%Y\<close> is handed to the C library, which prints the year as a decimal
  number without padding: a year below 1000 is printed with fewer than four digits.
\<close>

definition digit_char :: "nat \<Rightarrow> char" where
  "digit_char n = ''0123456789'' ! n"

definition pad2 :: "nat \<Rightarrow> string" where
  "pad2 n = [digit_char (n div 10 mod 10), digit_char (n mod 10)]"

fun decimal :: "nat \<Rightarrow> string" where
  "decimal n = (if n < 10 then [digit_char n] else decimal (n div 10) @ [digit_char (n mod 10)])"

declare decimal.simps [simp del]

text \<open>The four digits of a number below 10000.\<close>

definition pad4 :: "nat \<Rightarrow> string" where
  "pad4 n =
     [digit_char (n div 1000 mod 10), digit_char (n div 100 mod 10),
      digit_char (n div 10 mod 10), digit_char (n mod 10)]"

text \<open>\<open>d.strftime("%d-%m-%Y")\<close> and \<open>t.strftime("%H:%M")\<close>.\<close>

definition strftime_date :: "datetime_date \<Rightarrow> string" where
  "strftime_date d = pad2 (day d) @ ''-'' @ pad2 (month d) @ ''-'' @ decimal (year d)"

definition strftime_time :: "datetime_time \<Rightarrow> string" where
  "strftime_time t = pad2 (hour t) @ '':'' @ pad2 (minute t)"

subsection \<open>\<open>strptime\<close>\<close>

text \<open>
  \<open>strptime\<close> turns the format into a regular expression and matches it at the start
  of the string. A piece of the expression is modelled by the list of its matches at
  the start of a string, each with the value read and the rest of the string, in the
  order in which the backtracking matcher tries them.
\<close>

definition digit_val :: "char \<Rightarrow> nat option" where
  "digit_val c =
     map_of [(CHR ''0'', 0), (CHR ''1'', 1), (CHR ''2'', 2), (CHR ''3'', 3), (CHR ''4'', 4),
             (CHR ''5'', 5), (CHR ''6'', 6), (CHR ''7'', 7), (CHR ''8'', 8), (CHR ''9'', 9)] c"

definition two_digits :: "(nat \<Rightarrow> bool) \<Rightarrow> (nat \<Rightarrow> bool) \<Rightarrow> string \<Rightarrow> (nat \<times> string) list" where
  "two_digits p q s =
     (case s of
        c1 # c2 # r \<Rightarrow>
          (case (digit_val c1, digit_val c2) of
             (Some a, Some b) \<Rightarrow> if p a \<and> q b then [(10 * a + b, r)] else []
           | _ \<Rightarrow> [])
      | _ \<Rightarrow> [])"

definition one_digit :: "(nat \<Rightarrow> bool) \<Rightarrow> string \<Rightarrow> (nat \<times> string) list" where
  "one_digit p s =
     (case s of
        c # r \<Rightarrow> (case digit_val c of Some a \<Rightarrow> if p a then [(a, r)] else [] | None \<Rightarrow> [])
      | [] \<Rightarrow> [])"

definition space_digit :: "string \<Rightarrow> (nat \<times> string) list" where
  "space_digit s =
     (case s of
        c1 # c2 # r \<Rightarrow>
          if c1 = CHR '' ''
          then (case digit_val c2 of Some b \<Rightarrow> if 1 \<le> b then [(b, r)] else [] | None \<Rightarrow> [])
          else []
      | _ \<Rightarrow> [])"

text \<open>\<open>%d\<close> is \<open>3[0-1]|[1-2]\d|0[1-9]|[1-9]| [1-9]\<close>.\<close>

definition rx_d :: "string \<Rightarrow> (nat \<times> string) list" where
  "rx_d s =
     two_digits (\<lambda>a. a = 3) (\<lambda>b. b \<le> 1) s @
     two_digits (\<lambda>a. 1 \<le> a \<and> a \<le> 2) (\<lambda>b. True) s @
     two_digits (\<lambda>a. a = 0) (\<lambda>b. 1 \<le> b) s @
     one_digit (\<lambda>a. 1 \<le> a) s @
     space_digit s"

text \<open>\<open>%m\<close> is \<open>1[0-2]|0[1-9]|[1-9]\<close>.\<close>

definition rx_m :: "string \<Rightarrow> (nat \<times> string) list" where
  "rx_m s =
     two_digits (\<lambda>a. a = 1) (\<lambda>b. b \<le> 2) s @
     two_digits (\<lambda>a. a = 0) (\<lambda>b. 1 \<le> b) s @
     one_digit (\<lambda>a. 1 \<le> a) s"

text \<open>\<open>%Y\<close> is \<open>\d\d\d\d\<close>.\<close>

definition rx_Y :: "string \<Rightarrow> (nat \<times> string) list" where
  "rx_Y s =
     (case s of
        c1 # c2 # c3 # c4 # r \<Rightarrow>
          (case (digit_val c1, digit_val c2, digit_val c3, digit_val c4) of
             (Some a, Some b, Some c, Some d) \<Rightarrow> [(1000 * a + 100 * b + 10 * c + d, r)]
           | _ \<Rightarrow> [])
      | _ \<Rightarrow> [])"

text \<open>\<open>%H\<close> is \<open>2[0-3]|[0-1]\d|\d\<close> and \<open>%M\<close> is \<open>[0-5]\d|\d\<close>.\<close>

definition rx_H :: "string \<Rightarrow> (nat \<times> string) list" where
  "rx_H s =
     two_digits (\<lambda>a. a = 2) (\<lambda>b. b \<le> 3) s @
     two_digits (\<lambda>a. a \<le> 1) (\<lambda>b. True) s @
     one_digit (\<lambda>a. True) s"

definition rx_M :: "string \<Rightarrow> (nat \<times> string) list" where
  "rx_M s = two_digits (\<lambda>a. a \<le> 5) (\<lambda>b. True) s @ one_digit (\<lambda>a. True) s"

text \<open>A piece followed by a literal character of the format.\<close>

definition lit :: "char \<Rightarrow> string \<Rightarrow> string list" where
  "lit c s = (case s of x # r \<Rightarrow> if x = c then [r] else [] | [] \<Rightarrow> [])"

definition then_lit :: "(nat \<times> string) list \<Rightarrow> char \<Rightarrow> (nat \<times> string) list" where
  "then_lit ms c = concat (map (\<lambda>(v, r). map (Pair v) (lit c r)) ms)"

text \<open>The matches of the expressions of \<open>%d-%m-%Y\<close> and of \<open>%H:%M\<close>, the first one first.\<close>

definition matches_date :: "string \<Rightarrow> (nat \<times> nat \<times> nat \<times> string) list" where
  "matches_date s =
     concat (map (\<lambda>(d, r1).
       concat (map (\<lambda>(m, r2).
         map (\<lambda>(y, r). (d, m, y, r)) (rx_Y r2))
       (then_lit (rx_m r1) CHR ''-'')))
     (then_lit (rx_d s) CHR ''-''))"

definition matches_time :: "string \<Rightarrow> (nat \<times> nat \<times> string) list" where
  "matches_time s =
     concat (map (\<lambda>(h, r1). map (\<lambda>(m, r). (h, m, r)) (rx_M r1)) (then_lit (rx_H s) CHR '':''))"

text \<open>
  \<open>datetime.strptime(s, "%d-%m-%Y").date()\<close> and \<open>datetime.strptime(s, "%H:%M").time()\<close>:
  \<open>None\<close> is the \<open>ValueError\<close> raised when the string does not match, when text remains
  after the first match, or when the values read are no date.
\<close>

definition strptime_date :: "string \<Rightarrow> datetime_date option" where
  "strptime_date s =
     (case matches_date s of
        [] \<Rightarrow> None
      | (d, m, y, r) # _ \<Rightarrow>
          if r \<noteq> [] then None
          else (let date = \<lparr>year = y, month = m, day = d\<rparr>
                in if valid_date date then Some date else None))"

definition strptime_time :: "string \<Rightarrow> datetime_time option" where
  "strptime_time s =
     (case matches_time s of
        [] \<Rightarrow> None
      | (h, m, r) # _ \<Rightarrow>
          if r \<noteq> [] then None
          else Some \<lparr>hour = h, minute = m, second = 0, microsecond = 0\<rparr>)"

section \<open>Confirming a chat draft\<close>

text \<open>
  The fields of \<open>HCPInteractionForm\<close> after validation, which are also the columns of a
  row of \<open>interaction_logs\<close> next to its \<open>id\<close> (the \<open>timestamp\<close> column is the clock's
  and is left out). The database is the list of its rows, and a new row takes the next
  \<open>id\<close>; a commit that fails in the database server is outside the model.
\<close>

record HCPInteractionForm =
  hcpName :: string
  interactionDate :: datetime_date
  interactionTime :: "datetime_time option"
  interactionType :: string
  attendees :: "string list"
  topicsDiscussed :: string
  materialsShared :: "string list"
  samplesDistributed :: "string list"
  hcpSentiment :: "string option"
  outcomes :: string
  followUpActions :: string

datatype InteractionLogDB = InteractionLogDB (log_id: nat) (columns: HCPInteractionForm)

type_synonym db = "InteractionLogDB list"

datatype LogConfirmation = LogConfirmation (confirmation_message: string) (confirmed_log_id: nat)

text \<open>
  The failures of the endpoint: an \<open>HTTPException\<close> of status 400 with the detail the
  source gives it, the status 400 of a draft the form model rejects (its detail lists the
  model's errors), and the \<open>AttributeError\<close> of calling \<open>strip\<close> on a value that is no
  string, which no handler catches.
\<close>

datatype confirm_error =
    BadRequest string
  | InvalidData
  | AttributeError

text \<open>Lines 519 to 524: the sentiment is read, stripped, normalised and checked.\<close>

definition normalize_sentiment :: "args \<Rightarrow> confirm_error + string option" where
  "normalize_sentiment draft_data =
     (case (case map_of draft_data ''hcpSentiment'' of None \<Rightarrow> Some [] | Some (PStr s) \<Rightarrow> Some s
            | Some _ \<Rightarrow> None) of
        None \<Rightarrow> Inl AttributeError
      | Some s \<Rightarrow>
          (let hcp_sentiment = strip s;
               hcp_sentiment = (if hcp_sentiment = ''N/A'' \<or> hcp_sentiment = [] then None
                                else Some hcp_sentiment)
           in if hcp_sentiment \<notin> set [Some ''Positive'', Some ''Neutral'', Some ''Negative'', None]
              then Inl (BadRequest
                     (''Invalid HCP Sentiment: '' @ [CHR 0x27] @ the hcp_sentiment @ [CHR 0x27] @
                      ''. Must be Positive, Neutral, Negative, or empty/N/A.''))
              else Inr hcp_sentiment))"

text \<open>Python's truth test of a value.\<close>

fun truthy :: "pyval \<Rightarrow> bool" where
  "truthy PNone = False"
| "truthy (PStr s) = (s \<noteq> [])"
| "truthy (PList xs) = (xs \<noteq> [])"

text \<open>Lines 527 to 545: the date and the time of the draft are parsed when they are given.\<close>

definition parse_interaction_date :: "args \<Rightarrow> confirm_error + datetime_date option" where
  "parse_interaction_date draft_data =
     (case map_of draft_data ''interactionDate'' of
        None \<Rightarrow> Inr None
      | Some date_str \<Rightarrow>
          if \<not> truthy date_str then Inr None
          else (case date_str of
                  PStr s \<Rightarrow>
                    (case strptime_date (strip s) of
                       Some d \<Rightarrow> Inr (Some d)
                     | None \<Rightarrow>
                         Inl (BadRequest
                           (''Invalid date format for '' @ [CHR 0x27] @ ''interactionDate'' @
                            [CHR 0x27] @ '': '' @ [CHR 0x27] @ s @ [CHR 0x27] @
                            ''. Expected DD-MM-YYYY.'')))
                | _ \<Rightarrow> Inl AttributeError))"

definition parse_interaction_time :: "args \<Rightarrow> confirm_error + datetime_time option" where
  "parse_interaction_time draft_data =
     (case map_of draft_data ''interactionTime'' of
        None \<Rightarrow> Inr None
      | Some time_str \<Rightarrow>
          if \<not> truthy time_str then Inr None
          else (case time_str of
                  PStr s \<Rightarrow>
                    (case strptime_time (strip s) of
                       Some t \<Rightarrow> Inr (Some t)
                     | None \<Rightarrow>
                         Inl (BadRequest
                           (''Invalid time format for '' @ [CHR 0x27] @ ''interactionTime'' @
                            [CHR 0x27] @ '': '' @ [CHR 0x27] @ s @ [CHR 0x27] @
                            ''. Expected HH:MM.'')))
                | _ \<Rightarrow> Inl AttributeError))"

text \<open>
  The values handed to the form model: \<open>draft_data.get(k) or ""\<close> for a text field and
  \<open>draft_data.get(k, default)\<close> for the others; \<open>None\<close> is a value the model rejects.
\<close>

definition get_or_empty :: "args \<Rightarrow> string \<Rightarrow> string option" where
  "get_or_empty draft_data k =
     (case map_of draft_data k of
        None \<Rightarrow> Some []
      | Some v \<Rightarrow> if \<not> truthy v then Some [] else (case v of PStr s \<Rightarrow> Some s | _ \<Rightarrow> None))"

definition get_str_list :: "args \<Rightarrow> string \<Rightarrow> string list option" where
  "get_str_list draft_data k =
     (case map_of draft_data k of None \<Rightarrow> Some [] | Some (PList xs) \<Rightarrow> str_list xs | Some _ \<Rightarrow> None)"

definition interaction_types :: "string list" where
  "interaction_types = [''Meeting'', ''Call'', ''Email'', ''Conference'', ''Other'', []]"

text \<open>The validation of \<open>HCPInteractionForm\<close> with the constraints of its fields.\<close>

definition validate_form ::
  "args \<Rightarrow> datetime_date option \<Rightarrow> datetime_time option \<Rightarrow> string option \<Rightarrow>
   HCPInteractionForm option" where
  "validate_form draft_data interaction_date_obj interaction_time_obj hcp_sentiment =
     do {
       name \<leftarrow> get_or_empty draft_data ''hcpName'';
       date \<leftarrow> interaction_date_obj;
       type \<leftarrow> defaulted_str draft_data ''interactionType'' ''Meeting'';
       att \<leftarrow> get_str_list draft_data ''attendees'';
       topics \<leftarrow> get_or_empty draft_data ''topicsDiscussed'';
       materials \<leftarrow> get_str_list draft_data ''materialsShared'';
       samples \<leftarrow> get_str_list draft_data ''samplesDistributed'';
       outc \<leftarrow> get_or_empty draft_data ''outcomes'';
       follow \<leftarrow> get_or_empty draft_data ''followUpActions'';
       if 1 \<le> length name \<and> length name \<le> 100 \<and> type \<in> set interaction_types \<and>
          1 \<le> length topics \<and> length outc \<le> 500 \<and> length follow \<le> 500
       then Some \<lparr>hcpName = name, interactionDate = date, interactionTime = interaction_time_obj,
                   interactionType = type, attendees = att, topicsDiscussed = topics,
                   materialsShared = materials, samplesDistributed = samples,
                   hcpSentiment = hcp_sentiment, outcomes = outc, followUpActions = follow\<rparr>
       else None
     }"

text \<open>
  \<open>confirm_chat_interaction_log\<close>: the stages in the order of the source, each ending
  the request at its failure; the result and the database after the request.
\<close>

definition confirm_chat_interaction_log ::
  "db \<Rightarrow> args \<Rightarrow> (confirm_error + LogConfirmation) \<times> db" where
  "confirm_chat_interaction_log database draft_data =
     (case normalize_sentiment draft_data of
        Inl e \<Rightarrow> (Inl e, database)
      | Inr hcp_sentiment \<Rightarrow>
          (case parse_interaction_date draft_data of
             Inl e \<Rightarrow> (Inl e, database)
           | Inr interaction_date_obj \<Rightarrow>
               (case parse_interaction_time draft_data of
                  Inl e \<Rightarrow> (Inl e, database)
                | Inr interaction_time_obj \<Rightarrow>
                    (case validate_form draft_data interaction_date_obj interaction_time_obj
                            hcp_sentiment of
                       None \<Rightarrow> (Inl InvalidData, database)
                     | Some parsed_data \<Rightarrow>
                         (let db_log = InteractionLogDB (Suc (length database)) parsed_data
                          in (Inr (LogConfirmation ''Log confirmed and saved successfully!''
                                     (log_id db_log)),
                              database @ [db_log]))))))"

text \<open>Lines 617 to 619 of \<open>get_all_logs\<close>: the date and the time of a row as shown.\<close>

definition formatted_date :: "InteractionLogDB \<Rightarrow> string" where
  "formatted_date log = strftime_date (interactionDate (columns log))"

definition formatted_time :: "InteractionLogDB \<Rightarrow> string option" where
  "formatted_time log = map_option strftime_time (interactionTime (columns log))"

text \<open>A sample draft with a given sentiment.\<close>

definition draft_with_sentiment :: "string \<Rightarrow> args" where
  "draft_with_sentiment s =
     [(''hcpName'', PStr ''Dr. Lee''), (''interactionDate'', PStr ''01-06-2024''),
      (''topicsDiscussed'', PStr ''Drug X efficacy''), (''hcpSentiment'', PStr s)]"

section \<open>Strings: basic facts\<close>


lemma split_nl_not_Nil: "split_nl s \<noteq> []"
  by (induction s) (auto split: list.splits)




section \<open>The draft-formatting tool\<close>





lemma length_field_values:
  "length (field_values h d t tm ty at ms sd se oc fu) = 11"
  by (simp add: field_values_def)






section \<open>The agent graph: the tool node and the loop-back edge\<close>

lemma py_in_sublist: "py_in needle hay = sublist needle hay"
  by (induction hay) (simp_all add: sublist_Cons_right)

lemma tool_outputs_Nil_iff: "tool_outputs exc tool_calls = [] \<longleftrightarrow> tool_calls = []"
  by (cases tool_calls) auto

lemma last_tool_outputs:
  "tool_calls \<noteq> [] \<Longrightarrow>
   last (tool_outputs exc tool_calls) =
     ToolMessage (tool_output_content exc (last tool_calls)) (tc_id (last tool_calls))"
  by (induction tool_calls) (auto simp: tool_outputs_Nil_iff)

lemma tool_outputs_append:
  "tool_outputs exc (xs @ ys) = tool_outputs exc xs @ tool_outputs exc ys"
  by (induction xs) auto

lemma call_tool_node_batch:
  "tool_calls \<noteq> [] \<Longrightarrow>
   call_tool_node exc (ms @ [AIMessage c tool_calls]) =
     Inr (ms @ AIMessage c tool_calls # tool_outputs exc tool_calls)"
  by (simp add: call_tool_node_def)

lemma should_continue_after_tool_last:
  "should_continue_after_tool (ms @ [ToolMessage content i]) =
     Inr (if mentions_question content then ''loop_to_llm'' else ''end'')"
  by (simp add: should_continue_after_tool_def)

lemma should_continue_after_batch:
  assumes "tool_calls \<noteq> []"
  shows "should_continue_after_tool (ms @ AIMessage c tool_calls # tool_outputs exc tool_calls) =
     Inr (if mentions_question (tool_output_content exc (last tool_calls))
          then ''loop_to_llm'' else ''end'')"
proof -
  from assms have ne: "tool_outputs exc tool_calls \<noteq> []"
    by (simp add: tool_outputs_Nil_iff)
  then have "last (ms @ AIMessage c tool_calls # tool_outputs exc tool_calls) =
      last (tool_outputs exc tool_calls)"
    by simp
  with assms ne show ?thesis
    by (simp add: should_continue_after_tool_def last_tool_outputs)
qed

text \<open>
  Claim C2. When the last message is an assistant message with a batch of tool calls,
  the tool node appends one tool message per call, the last of them for the last call,
  and the edge out of the node is decided by the content of that last tool message
  alone: if its lower-cased content contains \<open>question\<close> or \<open>clarify\<close> the run goes
  on at the language model, and for every other content the run ends with these messages.
\<close>

theorem loop_back_on_last_tool_message:
  assumes "tool_calls \<noteq> []"
  shows "call_tool_node exc (ms @ [AIMessage c tool_calls]) =
           Inr (ms @ AIMessage c tool_calls # tool_outputs exc tool_calls)
       \<and> last (ms @ AIMessage c tool_calls # tool_outputs exc tool_calls) =
           ToolMessage (tool_output_content exc (last tool_calls)) (tc_id (last tool_calls))
       \<and> run_from llm exc (Suc limit) Tools k (ms @ [AIMessage c tool_calls]) =
           (if sublist ''question'' (lower (tool_output_content exc (last tool_calls))) \<or>
               sublist ''clarify'' (lower (tool_output_content exc (last tool_calls)))
            then run_from llm exc limit Llm k
                   (ms @ AIMessage c tool_calls # tool_outputs exc tool_calls)
            else Inr (ms @ AIMessage c tool_calls # tool_outputs exc tool_calls))"
proof -
  let ?ms' = "ms @ AIMessage c tool_calls # tool_outputs exc tool_calls"
  have a: "call_tool_node exc (ms @ [AIMessage c tool_calls]) = Inr ?ms'"
    using assms by (rule call_tool_node_batch)
  from assms have "tool_outputs exc tool_calls \<noteq> []"
    by (simp add: tool_outputs_Nil_iff)
  then have b: "last ?ms' =
      ToolMessage (tool_output_content exc (last tool_calls)) (tc_id (last tool_calls))"
    using assms by (simp add: last_tool_outputs)
  have c: "should_continue_after_tool ?ms' =
      Inr (if mentions_question (tool_output_content exc (last tool_calls))
           then ''loop_to_llm'' else ''end'')"
    using assms by (rule should_continue_after_batch)
  have d: "run_from llm exc (Suc limit) Tools k (ms @ [AIMessage c tool_calls]) =
      (if mentions_question (tool_output_content exc (last tool_calls))
       then run_from llm exc limit Llm k ?ms' else Inr ?ms')"
    by (simp add: a c update_messages_def)
  from a b d show ?thesis
    by (simp only: mentions_question_def py_in_sublist)
qed

theorem loop_back_on_last_tool_message_witness:
  "[ToolCall ''ask_clarifying_question_tool''
      [(''question'', PStr ''Could you clarify the meeting date?'')] ''call_1''] \<noteq> []
   \<and> run_from llm_hello sample_exc (Suc 1) Tools 1
       ([] @ [AIMessage [] [ToolCall ''ask_clarifying_question_tool''
          [(''question'', PStr ''Could you clarify the meeting date?'')] ''call_1'']]) =
     Inr [AIMessage ''Hello!'' []]"
proof -
  let ?tc = "ToolCall ''ask_clarifying_question_tool''
      [(''question'', PStr ''Could you clarify the meeting date?'')] ''call_1''"
  have h: "[?tc] \<noteq> []" by simp
  have out: "tool_output_content sample_exc (last [?tc]) = ''Could you clarify the meeting date?''"
    by code_simp
  have m: "sublist ''clarify'' (lower ''Could you clarify the meeting date?'')"
    by code_simp
  have nxt: "run_from llm_hello sample_exc 1 Llm 1
      ([] @ AIMessage [] [?tc] # tool_outputs sample_exc [?tc]) = Inr [AIMessage ''Hello!'' []]"
    by code_simp
  from loop_back_on_last_tool_message [OF h, of sample_exc "[]" "[]" llm_hello 1 1]
  have "run_from llm_hello sample_exc (Suc 1) Tools 1 ([] @ [AIMessage [] [?tc]]) =
      Inr [AIMessage ''Hello!'' []]"
    by (simp only: out m nxt simp_thms if_True)
  with h show ?thesis by blast
qed

section \<open>The reply of the chat endpoint\<close>

text \<open>
  Claim C3, as stated, fails: a terminal tool message whose content lacks the draft
  markers and contains \<open>clarify\<close> is reported with the type \<open>text\<close>, not \<open>question\<close>.
\<close>

theorem question_kind_counterexample:
  "\<not> is_draft_text ''Could you clarify the meeting date?''
   \<and> mentions_question ''Could you clarify the meeting date?''
   \<and> agent_response sample_exc (ToolMessage ''Could you clarify the meeting date?'' ''call_1'') =
       Inr (ChatResponse ''Could you clarify the meeting date?'' ''text'')
   \<and> response_type (ChatResponse ''Could you clarify the meeting date?'' ''text'') \<noteq> ''question''"
  by code_simp

text \<open>
  Claim C3, amended. A terminal tool message, or a terminal assistant message without
  tool calls, whose content lacks one of the three draft markers and contains
  \<open>question\<close> or \<open>clarify\<close> in any casing, is answered with its content under the
  type \<open>text\<close>; and no reply of the endpoint has another type than \<open>text\<close> or \<open>draft\<close>.
\<close>

theorem question_content_reported_as_text:
  "(\<not> is_draft_text content \<and> mentions_question content \<longrightarrow>
      agent_response exc (ToolMessage content tool_call_id) = Inr (ChatResponse content ''text'')
    \<and> agent_response exc (AIMessage content []) = Inr (ChatResponse content ''text''))
   \<and> (agent_response exc m = Inr r \<longrightarrow> response_type r = ''text'' \<or> response_type r = ''draft'')"
proof -
  have "response_type r = ''text'' \<or> response_type r = ''draft''"
    if "agent_response exc m = Inr r"
    using that
    by (cases m) (auto split: list.splits sum.splits if_splits simp: Let_def)
  then show ?thesis by simp
qed

theorem question_content_reported_as_text_witness:
  "(\<not> is_draft_text ''Could you clarify the meeting date?''
    \<and> mentions_question ''Could you clarify the meeting date?'')
   \<and> agent_response sample_exc (ToolMessage ''Could you clarify the meeting date?'' ''call_1'') =
       Inr (ChatResponse ''Could you clarify the meeting date?'' ''text'')
   \<and> agent_response sample_exc (AIMessage ''Could you clarify the meeting date?'' []) =
       Inr (ChatResponse ''Could you clarify the meeting date?'' ''text'')
   \<and> (response_type (ChatResponse ''Could you clarify the meeting date?'' ''text'') = ''text''
      \<or> response_type (ChatResponse ''Could you clarify the meeting date?'' ''text'') = ''draft'')"
proof -
  have h: "\<not> is_draft_text ''Could you clarify the meeting date?''
      \<and> mentions_question ''Could you clarify the meeting date?''"
    by code_simp
  have e: "agent_response sample_exc (ToolMessage ''Could you clarify the meeting date?'' ''call_1'') =
       Inr (ChatResponse ''Could you clarify the meeting date?'' ''text'')"
    by code_simp
  from h e question_content_reported_as_text
    [of "''Could you clarify the meeting date?''" sample_exc "''call_1''"
        "ToolMessage ''Could you clarify the meeting date?'' ''call_1''"
        "ChatResponse ''Could you clarify the meeting date?'' ''text''"]
  show ?thesis by blast
qed

text \<open>
  Claim C6, as stated, fails: a terminal assistant message that requests the
  clarifying-question tool is not answered with that tool's result but with a fixed
  notice, and no tool is invoked.
\<close>

theorem fallback_any_tool_counterexample:
  "ainvoke_ask_clarifying_question_tool sample_exc
       [(''question'', PStr ''Could you clarify the meeting date?'')] =
     Inr ''Could you clarify the meeting date?''
   \<and> agent_response sample_exc
       (AIMessage [] [ToolCall ''ask_clarifying_question_tool''
          [(''question'', PStr ''Could you clarify the meeting date?'')] ''call_1'']) =
     Inr (ChatResponse
           (''AI decided to call tool: ask_clarifying_question_tool with args: '' @
            [CHR 0x7B, CHR 0x27] @ ''question'' @ [CHR 0x27] @ '': '' @ [CHR 0x27] @
            ''Could you clarify the meeting date?'' @ [CHR 0x27, CHR 0x7D] @
            ''. Awaiting tool execution output.'')
           ''text'')
   \<and> ''AI decided to call tool: ask_clarifying_question_tool with args: '' @
            [CHR 0x7B, CHR 0x27] @ ''question'' @ [CHR 0x27] @ '': '' @ [CHR 0x27] @
            ''Could you clarify the meeting date?'' @ [CHR 0x27, CHR 0x7D] @
            ''. Awaiting tool execution output.'' \<noteq> ''Could you clarify the meeting date?''"
  by code_simp

text \<open>
  Claim C6, amended. For a terminal assistant message that still carries tool calls,
  only the first call is looked at. If it names \<open>log_interaction_tool\<close>, that tool is
  invoked on the call's arguments and its result is the reply, of type \<open>draft\<close>; if the
  invocation raises, the exception is the failure of the turn. If it names any other
  tool, no tool is invoked and the reply is the notice \<open>AI decided to call tool: ...\<close>
  with the name and the arguments, of type \<open>text\<close>.
\<close>

theorem fallback_only_for_log_interaction_tool:
  "(tc_name tc = ''log_interaction_tool'' \<and>
      ainvoke_log_interaction_tool exc (tc_args tc) = Inr out \<longrightarrow>
        agent_response exc (AIMessage content (tc # rest)) = Inr (ChatResponse out ''draft''))
   \<and> (tc_name tc = ''log_interaction_tool'' \<and>
      ainvoke_log_interaction_tool exc (tc_args tc) = Inl e \<longrightarrow>
        agent_response exc (AIMessage content (tc # rest)) =
          Inl (Detail (''Error processing chat: '' @ e)))
   \<and> (tc_name tc \<noteq> ''log_interaction_tool'' \<longrightarrow>
        agent_response exc (AIMessage content (tc # rest)) =
          Inr (ChatResponse
                (''AI decided to call tool: '' @ tc_name tc @ '' with args: '' @
                 repr_dict (tc_args tc) @ ''. Awaiting tool execution output.'')
                ''text''))"
  by (simp add: Let_def)

theorem fallback_only_for_log_interaction_tool_witness:
  "(tc_name (ToolCall ''log_interaction_tool''
        [(''hcpName'', PStr ''Dr. Lee''), (''interactionDate'', PStr ''01-06-2024''),
         (''topicsDiscussed'', PStr ''Drug X efficacy'')] ''call_1'') = ''log_interaction_tool''
    \<and> ainvoke_log_interaction_tool sample_exc
        (tc_args (ToolCall ''log_interaction_tool''
          [(''hcpName'', PStr ''Dr. Lee''), (''interactionDate'', PStr ''01-06-2024''),
           (''topicsDiscussed'', PStr ''Drug X efficacy'')] ''call_1'')) =
       Inr (log_interaction_tool ''Dr. Lee'' ''01-06-2024'' ''Drug X efficacy'' None ''Meeting''
              None None None None None None))
   \<and> agent_response sample_exc
       (AIMessage [] [ToolCall ''log_interaction_tool''
          [(''hcpName'', PStr ''Dr. Lee''), (''interactionDate'', PStr ''01-06-2024''),
           (''topicsDiscussed'', PStr ''Drug X efficacy'')] ''call_1'']) =
     Inr (ChatResponse
            (log_interaction_tool ''Dr. Lee'' ''01-06-2024'' ''Drug X efficacy'' None ''Meeting''
               None None None None None None) ''draft'')
   \<and> (tc_name (ToolCall ''log_interaction_tool'' [] ''call_2'') = ''log_interaction_tool''
    \<and> ainvoke_log_interaction_tool sample_exc (tc_args (ToolCall ''log_interaction_tool'' [] ''call_2'')) =
       Inl ''validation error for log_interaction_tool'')
   \<and> agent_response sample_exc (AIMessage [] [ToolCall ''log_interaction_tool'' [] ''call_2'']) =
     Inl (Detail (''Error processing chat: '' @ ''validation error for log_interaction_tool''))
   \<and> tc_name (ToolCall ''retrieve_hcp_info_tool'' [(''hcp_name'', PStr ''Dr. Lee'')] ''call_3'') \<noteq>
       ''log_interaction_tool''
   \<and> agent_response sample_exc
       (AIMessage [] [ToolCall ''retrieve_hcp_info_tool'' [(''hcp_name'', PStr ''Dr. Lee'')] ''call_3'']) =
     Inr (ChatResponse
           (''AI decided to call tool: '' @
            tc_name (ToolCall ''retrieve_hcp_info_tool'' [(''hcp_name'', PStr ''Dr. Lee'')] ''call_3'') @
            '' with args: '' @
            repr_dict (tc_args (ToolCall ''retrieve_hcp_info_tool'' [(''hcp_name'', PStr ''Dr. Lee'')] ''call_3'')) @
            ''. Awaiting tool execution output.'')
           ''text'')"
proof -
  let ?tc1 = "ToolCall ''log_interaction_tool''
        [(''hcpName'', PStr ''Dr. Lee''), (''interactionDate'', PStr ''01-06-2024''),
         (''topicsDiscussed'', PStr ''Drug X efficacy'')] ''call_1''"
  let ?tc2 = "ToolCall ''log_interaction_tool'' [] ''call_2''"
  let ?tc3 = "ToolCall ''retrieve_hcp_info_tool'' [(''hcp_name'', PStr ''Dr. Lee'')] ''call_3''"
  have h1: "tc_name ?tc1 = ''log_interaction_tool'' \<and>
      ainvoke_log_interaction_tool sample_exc (tc_args ?tc1) =
       Inr (log_interaction_tool ''Dr. Lee'' ''01-06-2024'' ''Drug X efficacy'' None ''Meeting''
              None None None None None None)"
    by (simp add: ainvoke_log_interaction_tool_def bind_log_interaction_tool_def raise_or_def
        required_str_def optional_str_def defaulted_str_def optional_str_list_def)
  have h2: "tc_name ?tc2 = ''log_interaction_tool'' \<and>
      ainvoke_log_interaction_tool sample_exc (tc_args ?tc2) =
       Inl ''validation error for log_interaction_tool''"
    by (simp add: ainvoke_log_interaction_tool_def bind_log_interaction_tool_def raise_or_def
        required_str_def sample_exc_def)
  have h3: "tc_name ?tc3 \<noteq> ''log_interaction_tool''"
    by simp
  note t1 = fallback_only_for_log_interaction_tool [of ?tc1 sample_exc _ "[]" "[]"]
  note t2 = fallback_only_for_log_interaction_tool [of ?tc2 sample_exc _ "[]" "[]"
      "''validation error for log_interaction_tool''"]
  note t3 = fallback_only_for_log_interaction_tool [of ?tc3 sample_exc _ "[]" "[]"]
  from h1 t1 have r1: "agent_response sample_exc (AIMessage [] [?tc1]) =
     Inr (ChatResponse
            (log_interaction_tool ''Dr. Lee'' ''01-06-2024'' ''Drug X efficacy'' None ''Meeting''
               None None None None None None) ''draft'')"
    by blast
  from h2 t2 have r2: "agent_response sample_exc (AIMessage [] [?tc2]) =
     Inl (Detail (''Error processing chat: '' @ ''validation error for log_interaction_tool''))"
    by blast
  from h3 t3 have r3: "agent_response sample_exc (AIMessage [] [?tc3]) =
     Inr (ChatResponse
           (''AI decided to call tool: '' @ tc_name ?tc3 @ '' with args: '' @
            repr_dict (tc_args ?tc3) @ ''. Awaiting tool execution output.'') ''text'')"
    by blast
  from h1 h2 h3 r1 r2 r3 show ?thesis by blast
qed

section \<open>Unknown tools\<close>

lemma tool_output_content_unknown:
  "name \<notin> set tools \<Longrightarrow>
   tool_output_content exc (ToolCall name a i) = ''Unknown tool: '' @ name"
  by (simp add: tool_output_content_def tools_def)

lemma run_from_llm_step:
  "llm k ms = Some (c, tcs) \<Longrightarrow>
   run_from llm exc (Suc limit) Llm k ms =
     (if tcs \<noteq> [] then run_from llm exc limit Tools (Suc k) [AIMessage c tcs]
      else Inr [AIMessage c tcs])"
  by (simp add: call_llm_node_def update_messages_def should_continue_def)

text \<open>
  Claim C7, as stated, fails: for the unregistered name \<open>ask_question_tool\<close> the content
  \<open>Unknown tool: ask_question_tool\<close> contains \<open>question\<close>, the edge is \<open>loop_to_llm\<close>
  and the language model is invoked again instead of the turn ending.
\<close>

theorem unknown_tool_counterexample:
  "''ask_question_tool'' \<notin> set tools
   \<and> call_tool_node sample_exc [AIMessage [] [ToolCall ''ask_question_tool'' [] ''call_1'']] =
       Inr [AIMessage [] [ToolCall ''ask_question_tool'' [] ''call_1''],
            ToolMessage ''Unknown tool: ask_question_tool'' ''call_1'']
   \<and> should_continue_after_tool
       [AIMessage [] [ToolCall ''ask_question_tool'' [] ''call_1''],
        ToolMessage ''Unknown tool: ask_question_tool'' ''call_1''] = Inr ''loop_to_llm''
   \<and> run_from llm_hello sample_exc 2 Tools 1
       [AIMessage [] [ToolCall ''ask_question_tool'' [] ''call_1'']] =
     Inr [AIMessage ''Hello!'' []]"
  by code_simp

text \<open>
  Claim C7, amended. A tool call that names a tool outside the registry makes the tool
  node append a tool message with exactly the content \<open>Unknown tool: <name>\<close>, and the
  node returns normally. When that call is the last of its batch and this content
  contains neither \<open>question\<close> nor \<open>clarify\<close> in any casing, the run ends with that
  message; when in addition the content does not hold all three draft markers, the
  reply of the turn is this content with the type \<open>text\<close>.
\<close>

theorem unknown_tool_message:
  assumes "name \<notin> set tools"
  shows "tool_output_content exc (ToolCall name a i) = ''Unknown tool: '' @ name
   \<and> call_tool_node exc (ms @ [AIMessage c (tcs @ [ToolCall name a i])]) =
       Inr (ms @ AIMessage c (tcs @ [ToolCall name a i]) # tool_outputs exc tcs @
            [ToolMessage (''Unknown tool: '' @ name) i])
   \<and> (\<not> mentions_question (''Unknown tool: '' @ name) \<longrightarrow>
        run_from llm exc (Suc limit) Tools k (ms @ [AIMessage c (tcs @ [ToolCall name a i])]) =
          Inr (ms @ AIMessage c (tcs @ [ToolCall name a i]) # tool_outputs exc tcs @
               [ToolMessage (''Unknown tool: '' @ name) i]))
   \<and> (\<not> mentions_question (''Unknown tool: '' @ name) \<and>
       \<not> is_draft_text (''Unknown tool: '' @ name) \<and> strip user_text \<noteq> [] \<and>
       llm 0 (langchain_messages user_text history) = Some (c, tcs @ [ToolCall name a i]) \<longrightarrow>
        log_interaction_chat llm exc (Suc (Suc limit)) user_text history =
          Inr (ChatResponse (''Unknown tool: '' @ name) ''text''))"
proof -
  define tc where "tc = ToolCall name a i"
  define out where "out = ''Unknown tool: '' @ name"
  have out: "tool_output_content exc tc = out"
    unfolding tc_def out_def using assms by (rule tool_output_content_unknown)
  have id: "tc_id tc = i"
    by (simp add: tc_def)
  have outs: "tool_outputs exc (tcs @ [tc]) = tool_outputs exc tcs @ [ToolMessage out i]"
    by (simp add: tool_outputs_append out id)
  have node: "call_tool_node exc (xs @ [AIMessage c (tcs @ [tc])]) =
      Inr (xs @ AIMessage c (tcs @ [tc]) # tool_outputs exc tcs @ [ToolMessage out i])" for xs
    using call_tool_node_batch [of "tcs @ [tc]" exc xs c] by (simp add: outs)
  have edge: "should_continue_after_tool
      (xs @ AIMessage c (tcs @ [tc]) # tool_outputs exc tcs @ [ToolMessage out i]) =
      Inr (if mentions_question out then ''loop_to_llm'' else ''end'')" for xs
    using should_continue_after_tool_last
      [of "xs @ AIMessage c (tcs @ [tc]) # tool_outputs exc tcs" out i]
    by simp
  have run: "run_from llm exc (Suc n) Tools j (xs @ [AIMessage c (tcs @ [tc])]) =
      Inr (xs @ AIMessage c (tcs @ [tc]) # tool_outputs exc tcs @ [ToolMessage out i])"
    if "\<not> mentions_question out" for xs n j
    using that by (simp add: node edge update_messages_def)
  have chat: "log_interaction_chat llm exc (Suc (Suc limit)) user_text history =
      Inr (ChatResponse out ''text'')"
    if q: "\<not> mentions_question out" and d: "\<not> is_draft_text out"
      and s: "strip user_text \<noteq> []"
      and l: "llm 0 (langchain_messages user_text history) = Some (c, tcs @ [tc])"
  proof -
    have "app_graph llm exc (Suc (Suc limit)) (langchain_messages user_text history) =
        run_from llm exc (Suc limit) Tools (Suc 0) ([] @ [AIMessage c (tcs @ [tc])])"
      unfolding app_graph_def
      using run_from_llm_step
        [of llm 0 "langchain_messages user_text history" c "tcs @ [tc]" exc "Suc limit", OF l]
      by simp
    also have "\<dots> = Inr ([] @ AIMessage c (tcs @ [tc]) # tool_outputs exc tcs @
        [ToolMessage out i])"
      using q by (rule run)
    finally show ?thesis
      using s d q by (simp add: log_interaction_chat_def)
  qed
  from out node [where xs = ms] run [where xs = ms and n = limit and j = k] chat show ?thesis
    unfolding tc_def out_def by blast
qed

theorem unknown_tool_message_witness:
  "''get_weather'' \<notin> set tools
   \<and> \<not> mentions_question (''Unknown tool: '' @ ''get_weather'')
   \<and> \<not> is_draft_text (''Unknown tool: '' @ ''get_weather'')
   \<and> strip ''hi'' \<noteq> []
   \<and> llm_one_call (ToolCall ''get_weather'' [] ''call_1'') 0 (langchain_messages ''hi'' []) =
       Some ([], [] @ [ToolCall ''get_weather'' [] ''call_1''])
   \<and> tool_output_content sample_exc (ToolCall ''get_weather'' [] ''call_1'') =
       ''Unknown tool: '' @ ''get_weather''
   \<and> log_interaction_chat (llm_one_call (ToolCall ''get_weather'' [] ''call_1'')) sample_exc
       (Suc (Suc 0)) ''hi'' [] =
     Inr (ChatResponse (''Unknown tool: '' @ ''get_weather'') ''text'')"
proof -
  have h1: "''get_weather'' \<notin> set tools"
    by (simp add: tools_def)
  have h2: "\<not> mentions_question (''Unknown tool: '' @ ''get_weather'')"
    by code_simp
  have h3: "\<not> is_draft_text (''Unknown tool: '' @ ''get_weather'')"
    by code_simp
  have h4: "strip ''hi'' \<noteq> []"
    by code_simp
  have h5: "llm_one_call (ToolCall ''get_weather'' [] ''call_1'') 0 (langchain_messages ''hi'' []) =
       Some ([], [] @ [ToolCall ''get_weather'' [] ''call_1''])"
    by (simp add: llm_one_call_def)
  note t = unknown_tool_message [OF h1, of sample_exc "[]" "''call_1''" "[]" "[]" "[]"
      "llm_one_call (ToolCall ''get_weather'' [] ''call_1'')" 0 0 "''hi''" "[]"]
  from t have r1: "tool_output_content sample_exc (ToolCall ''get_weather'' [] ''call_1'') =
       ''Unknown tool: '' @ ''get_weather''"
    by blast
  from t h2 h3 h4 h5 have r2:
    "log_interaction_chat (llm_one_call (ToolCall ''get_weather'' [] ''call_1'')) sample_exc
       (Suc (Suc 0)) ''hi'' [] =
     Inr (ChatResponse (''Unknown tool: '' @ ''get_weather'') ''text'')"
    by blast
  from h1 h2 h3 h4 h5 r1 r2 show ?thesis by blast
qed

section \<open>The message list across the nodes\<close>

lemma call_tool_node_prefix:
  "call_tool_node exc ms = Inr ms' \<Longrightarrow> prefix ms (update_messages ms ms')"
  by (auto simp: call_tool_node_def update_messages_def split: if_splits message.splits)

lemma call_llm_node_singleton:
  "call_llm_node llm k ms = Inr ms' \<Longrightarrow> length (update_messages ms ms') = 1"
  by (auto simp: call_llm_node_def update_messages_def split: option.splits)

text \<open>
  Claim C1 at a concrete turn: the turn starts with the system prompt and the user's
  message; after the step of the language-model node the state holds the response
  alone, so the list before the step is no prefix of the list after it and the count
  has gone down from two to one.
\<close>

theorem llm_node_replaces_messages:
  "langchain_messages ''hi'' [] = [SystemMessage system_prompt, HumanMessage ''hi'']
   \<and> call_llm_node llm_hello 0 (langchain_messages ''hi'' []) = Inr [AIMessage ''Hello!'' []]
   \<and> update_messages (langchain_messages ''hi'' []) [AIMessage ''Hello!'' []] =
       [AIMessage ''Hello!'' []]
   \<and> app_graph llm_hello sample_exc 1 (langchain_messages ''hi'' []) = Inr [AIMessage ''Hello!'' []]
   \<and> \<not> prefix (langchain_messages ''hi'' []) [AIMessage ''Hello!'' []]
   \<and> length [AIMessage ''Hello!'' []] < length (langchain_messages ''hi'' [])"
  by (simp add: langchain_messages_def call_llm_node_def llm_hello_def update_messages_def
      app_graph_def should_continue_def)

section \<open>Validation of the user's message\<close>

lemma strip_Nil_iff: "strip s = [] \<longleftrightarrow> list_all py_isspace s"
proof
  assume "strip s = []"
  then have a: "dropWhile py_isspace (rev (dropWhile py_isspace s)) = []"
    by (simp add: strip_def)
  show "list_all py_isspace s"
  proof (rule ccontr)
    assume "\<not> list_all py_isspace s"
    then have ne: "dropWhile py_isspace s \<noteq> []"
      by (simp add: dropWhile_eq_Nil_conv list_all_iff)
    then have "\<not> py_isspace (hd (dropWhile py_isspace s))"
      by (rule hd_dropWhile)
    moreover from ne have "hd (dropWhile py_isspace s) \<in> set (rev (dropWhile py_isspace s))"
      by simp
    ultimately show False
      using a by (simp only: dropWhile_eq_Nil_conv) blast
  qed
next
  assume "list_all py_isspace s"
  then have "dropWhile py_isspace s = []"
    by (simp only: dropWhile_eq_Nil_conv list_all_iff)
  then show "strip s = []"
    by (simp only: strip_def rev.simps dropWhile.simps)
qed

text \<open>
  Claim C8. A user message that is empty or holds whitespace only is rejected with the
  status 400 and the detail \<open>Message cannot be empty.\<close>, whatever the language model,
  the history and the step limit are: the result does not depend on the graph, which is
  not run. Every other message is not rejected so: its result is the outcome of the
  graph run on the system prompt, the history and the message, and a failure then has
  the status 500.
\<close>

theorem blank_message_rejected_before_graph:
  "(list_all py_isspace user_text \<longrightarrow>
      log_interaction_chat llm exc limit user_text history =
        Inl (HTTPException 400 (Detail ''Message cannot be empty.'')))
   \<and> (\<not> list_all py_isspace user_text \<longrightarrow>
      log_interaction_chat llm exc limit user_text history \<noteq>
        Inl (HTTPException 400 (Detail ''Message cannot be empty.''))
      \<and> log_interaction_chat llm exc limit user_text history =
        (case app_graph llm exc limit (langchain_messages user_text history) of
           Inl e \<Rightarrow> Inl (HTTPException 500 (ErrorProcessingChat e))
         | Inr final_messages \<Rightarrow>
             if final_messages = [] then Inl (HTTPException 500 (ErrorProcessingChat IndexError))
             else (case agent_response exc (last final_messages) of
                     Inl d \<Rightarrow> Inl (HTTPException 500 d)
                   | Inr response \<Rightarrow> Inr response)))"
  by (auto simp: log_interaction_chat_def strip_Nil_iff split: sum.splits)

theorem blank_message_rejected_before_graph_witness:
  "list_all py_isspace [CHR 0x20, CHR 0x09, CHR 0x0A]
   \<and> log_interaction_chat llm_raises sample_exc 0 [CHR 0x20, CHR 0x09, CHR 0x0A] [] =
       Inl (HTTPException 400 (Detail ''Message cannot be empty.''))
   \<and> \<not> list_all py_isspace ''hi''
   \<and> log_interaction_chat llm_hello sample_exc 1 ''hi'' [] = Inr (ChatResponse ''Hello!'' ''text'')
   \<and> log_interaction_chat llm_raises sample_exc 1 ''hi'' [] =
       Inl (HTTPException 500 (ErrorProcessingChat LLMInvocationError))"
proof -
  have h1: "list_all py_isspace [CHR 0x20, CHR 0x09, CHR 0x0A]"
    by (simp add: py_isspace_def whitespace_chars_def)
  have h2: "\<not> list_all py_isspace ''hi''"
    by (simp add: py_isspace_def whitespace_chars_def)
  have g1: "app_graph llm_hello sample_exc 1 (langchain_messages ''hi'' []) =
      Inr [AIMessage ''Hello!'' []]"
    by (simp add: app_graph_def call_llm_node_def llm_hello_def update_messages_def
        should_continue_def)
  have g2: "app_graph llm_raises sample_exc 1 (langchain_messages ''hi'' []) =
      Inl LLMInvocationError"
    by (simp add: app_graph_def call_llm_node_def llm_raises_def)
  have a: "agent_response sample_exc (AIMessage ''Hello!'' []) = Inr (ChatResponse ''Hello!'' ''text'')"
    by code_simp
  from h1 blank_message_rejected_before_graph
    [of "[CHR 0x20, CHR 0x09, CHR 0x0A]" llm_raises sample_exc 0 "[]"]
  have r1: "log_interaction_chat llm_raises sample_exc 0 [CHR 0x20, CHR 0x09, CHR 0x0A] [] =
       Inl (HTTPException 400 (Detail ''Message cannot be empty.''))"
    by blast
  from h2 g1 a blank_message_rejected_before_graph [of "''hi''" llm_hello sample_exc 1 "[]"]
  have r2: "log_interaction_chat llm_hello sample_exc 1 ''hi'' [] = Inr (ChatResponse ''Hello!'' ''text'')"
    by simp
  from h2 g2 blank_message_rejected_before_graph [of "''hi''" llm_raises sample_exc 1 "[]"]
  have r3: "log_interaction_chat llm_raises sample_exc 1 ''hi'' [] =
       Inl (HTTPException 500 (ErrorProcessingChat LLMInvocationError))"
    by simp
  from h1 h2 r1 r2 r3 show ?thesis by blast
qed

section \<open>Termination of the turn\<close>






section \<open>Formatting and parsing dates and times\<close>

lemma digit_cases: "n < 10 \<Longrightarrow> n \<in> {0, 1, 2, 3, 4, 5, 6, 7, 8, 9 :: nat}"
  by auto

lemma digit_val_digit_char: "n < 10 \<Longrightarrow> digit_val (digit_char n) = Some n"
  using digit_cases [of n] by (auto simp: digit_val_def digit_char_def)

lemma digit_char_not_space: "n < 10 \<Longrightarrow> \<not> py_isspace (digit_char n)"
  using digit_cases [of n] by (auto simp: py_isspace_def whitespace_chars_def digit_char_def)

lemma digit_char_not_sep:
  "n < 10 \<Longrightarrow> digit_char n \<noteq> CHR ''-'' \<and> digit_char n \<noteq> CHR '':'' \<and> digit_char n \<noteq> CHR '' ''"
  using digit_cases [of n] by (auto simp: digit_char_def)

lemma two_digits_pad2:
  "n < 100 \<Longrightarrow>
   two_digits p q (pad2 n @ r) = (if p (n div 10) \<and> q (n mod 10) then [(n, r)] else [])"
  by (simp add: two_digits_def pad2_def digit_val_digit_char)

lemma one_digit_pad2:
  "n < 100 \<Longrightarrow>
   one_digit p (pad2 n @ r) =
     (if p (n div 10) then [(n div 10, digit_char (n mod 10) # r)] else [])"
  by (simp add: one_digit_def pad2_def digit_val_digit_char)

lemma space_digit_pad2: "n < 100 \<Longrightarrow> space_digit (pad2 n @ r) = []"
  using digit_char_not_sep [of "n div 10"] by (simp add: space_digit_def pad2_def)

lemma lit_same: "lit c (c # r) = [r]"
  by (simp add: lit_def)

lemma lit_digit:
  "n < 10 \<Longrightarrow> lit CHR ''-'' (digit_char n # r) = [] \<and> lit CHR '':'' (digit_char n # r) = []"
  using digit_char_not_sep [of n] by (simp add: lit_def)

lemma then_lit_day:
  assumes "1 \<le> d" "d \<le> 31"
  shows "then_lit (rx_d (pad2 d @ CHR ''-'' # r)) CHR ''-'' = [(d, r)]"
proof -
  from assms have lt: "d < 100" and m: "d mod 10 < 10" by auto
  from assms have c: "(d div 10 = 3 \<and> d mod 10 \<le> 1) \<or> (1 \<le> d div 10 \<and> d div 10 \<le> 2)
      \<or> (d div 10 = 0 \<and> 1 \<le> d mod 10)"
    by presburger
  then show ?thesis
    by (auto simp: rx_d_def then_lit_def two_digits_pad2 [OF lt] one_digit_pad2 [OF lt]
        space_digit_pad2 [OF lt] lit_same lit_digit [OF m])
qed

lemma then_lit_month:
  assumes "1 \<le> m" "m \<le> 12"
  shows "then_lit (rx_m (pad2 m @ CHR ''-'' # r)) CHR ''-'' = [(m, r)]"
proof -
  from assms have lt: "m < 100" and md: "m mod 10 < 10" by auto
  from assms have c: "(m div 10 = 1 \<and> m mod 10 \<le> 2) \<or> (m div 10 = 0 \<and> 1 \<le> m mod 10)"
    by presburger
  then show ?thesis
    by (auto simp: rx_m_def then_lit_def two_digits_pad2 [OF lt] one_digit_pad2 [OF lt]
        lit_same lit_digit [OF md])
qed

lemma four_digits:
  assumes "y \<le> 9999"
  shows "1000 * (y div 1000) + 100 * (y div 100 mod 10) + 10 * (y div 10 mod 10) + y mod 10 = (y::nat)
    \<and> y div 1000 < 10"
proof -
  define a where "a = y div 10"
  define b where "b = a div 10"
  define c where "c = b div 10"
  have e1: "y div 100 = b"
    unfolding b_def a_def by (simp add: div_mult2_eq)
  have e2: "y div 1000 = c"
    unfolding c_def b_def a_def by (simp add: div_mult2_eq)
  have y: "y = 10 * a + y mod 10"
    unfolding a_def by simp
  have a: "a = 10 * b + a mod 10"
    unfolding b_def by simp
  have b: "b = 10 * c + b mod 10"
    unfolding c_def by simp
  from assms y a b have "c < 10" by linarith
  then have "1000 * c + 100 * (b mod 10) + 10 * (a mod 10) + y mod 10 = y \<and> c < 10"
    using y a b by linarith
  then show ?thesis
    by (simp only: e1 e2 a_def [symmetric])
qed

lemma rx_Y_pad4:
  assumes "y \<le> 9999"
  shows "rx_Y (pad4 y @ r) = [(y, r)]"
  using four_digits [OF assms] by (simp add: rx_Y_def pad4_def digit_val_digit_char)

lemma then_lit_hour:
  assumes "h < 24"
  shows "then_lit (rx_H (pad2 h @ CHR '':'' # r)) CHR '':'' = [(h, r)]"
proof -
  from assms have lt: "h < 100" and md: "h mod 10 < 10" by auto
  from assms have c: "(h div 10 = 2 \<and> h mod 10 \<le> 3) \<or> h div 10 \<le> 1"
    by presburger
  then show ?thesis
    by (auto simp: rx_H_def then_lit_def two_digits_pad2 [OF lt] one_digit_pad2 [OF lt]
        lit_same lit_digit [OF md])
qed

lemma rx_M_pad2:
  assumes "m < 60"
  shows "rx_M (pad2 m) = [(m, []), (m div 10, [digit_char (m mod 10)])]"
proof -
  from assms have lt: "m < 100" and c: "m div 10 \<le> 5" by presburger+
  from two_digits_pad2 [OF lt, of _ _ "[]"] one_digit_pad2 [OF lt, of _ "[]"] c
  show ?thesis by (simp add: rx_M_def)
qed

lemma decimal_four_digits:
  assumes "1000 \<le> y" "y \<le> 9999"
  shows "decimal y = pad4 y"
proof -
  have e1: "y div 10 div 10 = y div 100" and e2: "y div 100 div 10 = y div 1000"
    by (simp_all add: div_mult2_eq)
  from assms have b: "\<not> y < 10" "\<not> y div 10 < 10" "\<not> y div 100 < 10" "y div 1000 < 10"
    by simp_all
  have "decimal y = decimal (y div 10) @ [digit_char (y mod 10)]"
    using b(1) by (subst decimal.simps) simp
  also have "decimal (y div 10) = decimal (y div 100) @ [digit_char (y div 10 mod 10)]"
    using b(2) by (subst decimal.simps) (simp add: e1)
  also have "decimal (y div 100) = decimal (y div 1000) @ [digit_char (y div 100 mod 10)]"
    using b(3) by (subst decimal.simps) (simp add: e2)
  also have "decimal (y div 1000) = [digit_char (y div 1000)]"
    using b(4) by (subst decimal.simps) simp
  finally show ?thesis
    using b(4) by (simp add: pad4_def)
qed

lemma decimal_last: "decimal n \<noteq> [] \<and> last (decimal n) = digit_char (n mod 10)"
  by (subst (1 2) decimal.simps) simp

lemma matches_date_strftime:
  assumes "valid_date d" "1000 \<le> year d"
  shows "matches_date (strftime_date d) = [(day d, month d, year d, [])]"
proof -
  have dm: "days_in_month y m \<le> 31" for y m
    by (simp add: days_in_month_def)
  from assms dm [of "year d" "month d"] have b: "1 \<le> day d" "day d \<le> 31" "1 \<le> month d"
      "month d \<le> 12" "year d \<le> 9999"
    by (auto simp: valid_date_def)
  show ?thesis
    by (simp add: matches_date_def strftime_date_def decimal_four_digits [OF assms(2) b(5)]
        then_lit_day [OF b(1,2)] then_lit_month [OF b(3,4)]
        rx_Y_pad4 [OF b(5), of "[]", simplified])
qed

lemma matches_time_strftime:
  assumes "valid_time t"
  shows "matches_time (strftime_time t) =
    [(hour t, minute t, []), (hour t, minute t div 10, [digit_char (minute t mod 10)])]"
proof -
  from assms have b: "hour t < 24" "minute t < 60"
    by (auto simp: valid_time_def)
  show ?thesis
    by (simp add: matches_time_def strftime_time_def then_lit_hour [OF b(1)] rx_M_pad2 [OF b(2)])
qed

lemma strip_id:
  assumes "s \<noteq> []" "\<not> py_isspace (hd s)" "\<not> py_isspace (last s)"
  shows "strip s = s"
proof -
  from assms(1,2) have a: "dropWhile py_isspace s = s"
    by (cases s) auto
  from assms(1,3) have "dropWhile py_isspace (rev s) = rev s"
    by (cases "rev s") (auto simp: last_rev [symmetric] hd_rev)
  with a show ?thesis by (simp add: strip_def)
qed

lemma strip_strftime_date: "strip (strftime_date d) = strftime_date d"
  by (rule strip_id)
    (simp_all add: strftime_date_def pad2_def decimal_last digit_char_not_space
     )

lemma strip_strftime_time: "strip (strftime_time t) = strftime_time t"
  by (rule strip_id)
    (simp_all add: strftime_time_def pad2_def digit_char_not_space)

lemma date_fields: "\<lparr>year = year x, month = month x, day = day x\<rparr> = (x::datetime_date)"
  by (cases x) simp

text \<open>
  Claim C5, as stated, fails: the valid date 1 January 999 is printed as \<open>01-01-999\<close>,
  with three digits for the year, and \<open>strptime\<close>, which wants four, rejects that text.
\<close>

theorem early_year_round_trip_counterexample:
  "valid_date \<lparr>year = 999, month = 1, day = 1\<rparr>
   \<and> strftime_date \<lparr>year = 999, month = 1, day = 1\<rparr> = ''01-01-999''
   \<and> strptime_date (strip (strftime_date \<lparr>year = 999, month = 1, day = 1\<rparr>)) = None"
proof -
  have v: "valid_date \<lparr>year = 999, month = 1, day = 1\<rparr>"
    by (simp add: valid_date_def days_in_month_def)
  have f: "strftime_date \<lparr>year = 999, month = 1, day = 1\<rparr> = ''01-01-999''"
    by (simp add: strftime_date_def pad2_def decimal.simps digit_char_def)
  have p: "strptime_date (strip ''01-01-999'') = None"
    by code_simp
  from v f p show ?thesis by simp
qed

text \<open>
  Claim C5, amended. For every valid calendar date from the year 1000 on, formatting it
  as \<open>DD-MM-YYYY\<close> (as the listing does) and parsing the text back as the confirmation
  path does (strip, then \<open>strptime\<close> with \<open>%d-%m-%Y\<close>) gives the same date. For every
  valid time of day, formatting it as \<open>HH:MM\<close> and parsing it back with \<open>%H:%M\<close> gives
  the same hour and minute, with the seconds at zero: the time in its canonical
  hour:minute form. So both formats are one-to-one on these canonical values.
\<close>

theorem date_time_round_trip:
  "(valid_date d \<and> 1000 \<le> year d \<longrightarrow> strptime_date (strip (strftime_date d)) = Some d)
   \<and> (valid_time t \<longrightarrow>
        strptime_time (strip (strftime_time t)) = Some (t\<lparr>second := 0, microsecond := 0\<rparr>))
   \<and> (valid_date d \<and> 1000 \<le> year d \<and> valid_date d' \<and> 1000 \<le> year d' \<and>
       strftime_date d = strftime_date d' \<longrightarrow> d = d')
   \<and> (valid_time t \<and> valid_time t' \<and> strftime_time t = strftime_time t' \<longrightarrow>
        hour t = hour t' \<and> minute t = minute t')"
proof -
  have date: "strptime_date (strip (strftime_date x)) = Some x"
    if "valid_date x" "1000 \<le> year x" for x :: datetime_date
    using that by (simp add: strip_strftime_date strptime_date_def matches_date_strftime date_fields)
  have time: "strptime_time (strip (strftime_time x)) = Some (x\<lparr>second := 0, microsecond := 0\<rparr>)"
    if "valid_time x" for x :: datetime_time
    using that by (simp add: strip_strftime_time strptime_time_def matches_time_strftime)
  have inj_date: "d = d'"
    if "valid_date d" "1000 \<le> year d" "valid_date d'" "1000 \<le> year d'"
      "strftime_date d = strftime_date d'"
  proof -
    have "Some d = strptime_date (strip (strftime_date d))"
      using date [OF that(1,2)] by (rule sym)
    also have "\<dots> = strptime_date (strip (strftime_date d'))"
      by (simp only: that(5))
    also have "\<dots> = Some d'"
      by (rule date [OF that(3,4)])
    finally show ?thesis by (simp only: option.inject)
  qed
  have inj_time: "hour t = hour t' \<and> minute t = minute t'"
    if "valid_time t" "valid_time t'" "strftime_time t = strftime_time t'"
  proof -
    have "Some (t\<lparr>second := 0, microsecond := 0\<rparr>) = strptime_time (strip (strftime_time t))"
      using time [OF that(1)] by (rule sym)
    also have "\<dots> = strptime_time (strip (strftime_time t'))"
      by (simp only: that(3))
    also have "\<dots> = Some (t'\<lparr>second := 0, microsecond := 0\<rparr>)"
      by (rule time [OF that(2)])
    finally have "t\<lparr>second := 0, microsecond := 0\<rparr> = t'\<lparr>second := 0, microsecond := 0\<rparr>"
      by (simp only: option.inject)
    then have "hour (t\<lparr>second := 0, microsecond := 0\<rparr>) = hour (t'\<lparr>second := 0, microsecond := 0\<rparr>)"
      and "minute (t\<lparr>second := 0, microsecond := 0\<rparr>) = minute (t'\<lparr>second := 0, microsecond := 0\<rparr>)"
      by simp_all
    then show ?thesis by simp
  qed
  from date [of d] time [of t] inj_date inj_time show ?thesis by blast
qed

theorem date_time_round_trip_witness:
  "valid_date \<lparr>year = 2024, month = 2, day = 29\<rparr>
   \<and> 1000 \<le> year \<lparr>year = 2024, month = 2, day = 29\<rparr>
   \<and> strftime_date \<lparr>year = 2024, month = 2, day = 29\<rparr> = ''29-02-2024''
   \<and> strptime_date (strip (strftime_date \<lparr>year = 2024, month = 2, day = 29\<rparr>)) =
       Some \<lparr>year = 2024, month = 2, day = 29\<rparr>
   \<and> valid_time \<lparr>hour = 9, minute = 5, second = 0, microsecond = 0\<rparr>
   \<and> strftime_time \<lparr>hour = 9, minute = 5, second = 0, microsecond = 0\<rparr> = ''09:05''
   \<and> strptime_time (strip (strftime_time \<lparr>hour = 9, minute = 5, second = 0, microsecond = 0\<rparr>)) =
       Some \<lparr>hour = 9, minute = 5, second = 0, microsecond = 0\<rparr>"
proof -
  let ?d = "\<lparr>year = 2024, month = 2, day = 29\<rparr>"
  let ?t = "\<lparr>hour = 9, minute = 5, second = 0, microsecond = 0\<rparr>"
  have h1: "valid_date ?d"
    by (simp add: valid_date_def days_in_month_def is_leap_def)
  have h2: "valid_time ?t"
    by (simp add: valid_time_def)
  have h3: "1000 \<le> year ?d"
    by simp
  have f1: "strftime_date ?d = ''29-02-2024''"
    by (simp add: strftime_date_def pad2_def decimal.simps digit_char_def)
  have f2: "strftime_time ?t = ''09:05''"
    by (simp add: strftime_time_def pad2_def digit_char_def)
  note t = date_time_round_trip [of ?d ?t ?d ?t]
  from t h1 h3 have r1: "strptime_date (strip (strftime_date ?d)) = Some ?d"
    by blast
  from t h2 have "strptime_time (strip (strftime_time ?t)) = Some (?t\<lparr>second := 0, microsecond := 0\<rparr>)"
    by blast
  then have r2: "strptime_time (strip (strftime_time ?t)) = Some ?t"
    by simp
  from h1 h2 h3 f1 f2 r1 r2 show ?thesis by blast
qed

section \<open>The sentiment of a confirmed draft\<close>

lemma normalize_sentiment_text:
  assumes "map_of draft_data ''hcpSentiment'' = Some (PStr s) \<or>
    (map_of draft_data ''hcpSentiment'' = None \<and> s = [])"
  shows "normalize_sentiment draft_data =
    (if strip s = ''N/A'' \<or> strip s = [] then Inr None
     else if strip s \<in> set [''Positive'', ''Neutral'', ''Negative''] then Inr (Some (strip s))
     else Inl (BadRequest
            (''Invalid HCP Sentiment: '' @ [CHR 0x27] @ strip s @ [CHR 0x27] @
             ''. Must be Positive, Neutral, Negative, or empty/N/A.'')))"
proof -
  from assms have "(case map_of draft_data ''hcpSentiment'' of None \<Rightarrow> Some []
      | Some (PStr s) \<Rightarrow> Some s | Some _ \<Rightarrow> None) = Some s"
    by auto
  then show ?thesis
    unfolding normalize_sentiment_def by (simp add: Let_def)
qed

lemma confirm_success_row:
  assumes "confirm_chat_interaction_log database draft_data = (Inr c, database')"
  shows "\<exists>row. database' = database @ [row] \<and>
    normalize_sentiment draft_data = Inr (hcpSentiment (columns row))"
proof -
  from assms obtain sent d t form where
    n: "normalize_sentiment draft_data = Inr sent"
    and v: "validate_form draft_data d t sent = Some form"
    and db: "database' = database @ [InteractionLogDB (Suc (length database)) form]"
    by (auto simp: confirm_chat_interaction_log_def Let_def split: sum.splits option.splits)
  from v have "hcpSentiment form = sent"
    by (auto simp: validate_form_def split: Option.bind_splits if_splits)
  with n db show ?thesis by simp
qed

text \<open>
  Claim C10, as stated, fails: the value \<open>Positive\<close> with a blank on either side is
  neither \<open>N/A\<close>, nor blank, nor one of the three allowed values, and yet it is not
  rejected: the draft is saved with the sentiment \<open>Positive\<close>.
\<close>

theorem sentiment_padded_counterexample:
  "'' Positive '' \<notin> set [''Positive'', ''Neutral'', ''Negative'', ''N/A'']
   \<and> \<not> list_all py_isspace '' Positive ''
   \<and> fst (confirm_chat_interaction_log [] (draft_with_sentiment '' Positive '')) =
       Inr (LogConfirmation ''Log confirmed and saved successfully!'' 1)
   \<and> map (\<lambda>row. hcpSentiment (columns row))
       (snd (confirm_chat_interaction_log [] (draft_with_sentiment '' Positive ''))) =
       [Some ''Positive'']"
  by code_simp

text \<open>
  Claim C10, amended. On the confirmation path the sentiment of the draft, a string or
  absent (then the empty string), is first stripped of surrounding whitespace. If the
  stripped value is \<open>N/A\<close> or empty it is normalised to null; if it is \<open>Positive\<close>,
  \<open>Neutral\<close> or \<open>Negative\<close> it is kept, as stripped; every other stripped value is
  rejected with the status 400 whatever the other fields hold, so before the date is
  parsed, and the database is left as it was. The row of a saved draft holds the
  normalised sentiment.
\<close>

theorem sentiment_normalized_after_strip:
  assumes "map_of draft_data ''hcpSentiment'' = Some (PStr s) \<or>
    (map_of draft_data ''hcpSentiment'' = None \<and> s = [])"
  shows "(strip s = ''N/A'' \<or> strip s = [] \<longrightarrow> normalize_sentiment draft_data = Inr None)
   \<and> (strip s \<in> set [''Positive'', ''Neutral'', ''Negative''] \<longrightarrow>
        normalize_sentiment draft_data = Inr (Some (strip s)))
   \<and> (strip s \<notin> set [''N/A'', [], ''Positive'', ''Neutral'', ''Negative''] \<longrightarrow>
        confirm_chat_interaction_log database draft_data =
          (Inl (BadRequest
                 (''Invalid HCP Sentiment: '' @ [CHR 0x27] @ strip s @ [CHR 0x27] @
                  ''. Must be Positive, Neutral, Negative, or empty/N/A.'')),
           database))
   \<and> (confirm_chat_interaction_log database draft_data = (Inr c, database') \<longrightarrow>
        (\<exists>row. database' = database @ [row] \<and>
           normalize_sentiment draft_data = Inr (hcpSentiment (columns row))))"
proof -
  note n = normalize_sentiment_text [OF assms]
  have a: "normalize_sentiment draft_data = Inr None" if "strip s = ''N/A'' \<or> strip s = []"
    using that n by auto
  have b: "normalize_sentiment draft_data = Inr (Some (strip s))"
    if "strip s \<in> set [''Positive'', ''Neutral'', ''Negative'']"
    using that n by auto
  have c: "confirm_chat_interaction_log database draft_data =
      (Inl (BadRequest
             (''Invalid HCP Sentiment: '' @ [CHR 0x27] @ strip s @ [CHR 0x27] @
              ''. Must be Positive, Neutral, Negative, or empty/N/A.'')),
       database)"
    if "strip s \<notin> set [''N/A'', [], ''Positive'', ''Neutral'', ''Negative'']"
  proof -
    from that n have "normalize_sentiment draft_data =
        Inl (BadRequest
             (''Invalid HCP Sentiment: '' @ [CHR 0x27] @ strip s @ [CHR 0x27] @
              ''. Must be Positive, Neutral, Negative, or empty/N/A.''))"
      by auto
    then show ?thesis
      by (simp add: confirm_chat_interaction_log_def)
  qed
  from a b c confirm_success_row [of database draft_data c database'] show ?thesis
    by blast
qed

theorem sentiment_normalized_after_strip_witness:
  "map_of (draft_with_sentiment '' N/A '') ''hcpSentiment'' = Some (PStr '' N/A '')
   \<and> strip '' N/A '' = ''N/A''
   \<and> normalize_sentiment (draft_with_sentiment '' N/A '') = Inr None
   \<and> map_of (draft_with_sentiment '' Neutral'') ''hcpSentiment'' = Some (PStr '' Neutral'')
   \<and> strip '' Neutral'' \<in> set [''Positive'', ''Neutral'', ''Negative'']
   \<and> normalize_sentiment (draft_with_sentiment '' Neutral'') = Inr (Some ''Neutral'')
   \<and> map_of [(''interactionDate'', PStr ''next week''), (''hcpSentiment'', PStr ''Happy'')]
       ''hcpSentiment'' = Some (PStr ''Happy'')
   \<and> strip ''Happy'' \<notin> set [''N/A'', [], ''Positive'', ''Neutral'', ''Negative'']
   \<and> confirm_chat_interaction_log []
       [(''interactionDate'', PStr ''next week''), (''hcpSentiment'', PStr ''Happy'')] =
       (Inl (BadRequest
              (''Invalid HCP Sentiment: '' @ [CHR 0x27] @ ''Happy'' @ [CHR 0x27] @
               ''. Must be Positive, Neutral, Negative, or empty/N/A.'')), [])
   \<and> fst (confirm_chat_interaction_log [] (draft_with_sentiment '' Neutral'')) =
       Inr (LogConfirmation ''Log confirmed and saved successfully!'' 1)
   \<and> (\<exists>row. snd (confirm_chat_interaction_log [] (draft_with_sentiment '' Neutral'')) = [] @ [row]
        \<and> normalize_sentiment (draft_with_sentiment '' Neutral'') = Inr (hcpSentiment (columns row)))"
proof -
  let ?bad = "[(''interactionDate'', PStr ''next week''), (''hcpSentiment'', PStr ''Happy'')]"
  have h1: "map_of (draft_with_sentiment '' N/A '') ''hcpSentiment'' = Some (PStr '' N/A '')"
    by (simp add: draft_with_sentiment_def)
  have s1: "strip '' N/A '' = ''N/A''"
    by code_simp
  have h2: "map_of (draft_with_sentiment '' Neutral'') ''hcpSentiment'' = Some (PStr '' Neutral'')"
    by (simp add: draft_with_sentiment_def)
  have s2: "strip '' Neutral'' = ''Neutral''"
    by code_simp
  have h3: "map_of ?bad ''hcpSentiment'' = Some (PStr ''Happy'')"
    by simp
  have s3: "strip ''Happy'' = ''Happy''"
    by code_simp
  have e: "confirm_chat_interaction_log [] (draft_with_sentiment '' Neutral'') =
      (Inr (LogConfirmation ''Log confirmed and saved successfully!'' 1),
       snd (confirm_chat_interaction_log [] (draft_with_sentiment '' Neutral'')))"
    by code_simp
  from sentiment_normalized_after_strip [of "draft_with_sentiment '' N/A ''" "'' N/A ''"] h1 s1
  have r1: "normalize_sentiment (draft_with_sentiment '' N/A '') = Inr None"
    by blast
  note t2 = sentiment_normalized_after_strip
    [of "draft_with_sentiment '' Neutral''" "'' Neutral''" "[]"
        "LogConfirmation ''Log confirmed and saved successfully!'' 1"
        "snd (confirm_chat_interaction_log [] (draft_with_sentiment '' Neutral''))"]
  from t2 h2 s2 have r2: "normalize_sentiment (draft_with_sentiment '' Neutral'') = Inr (Some ''Neutral'')"
    by simp
  from t2 h2 e have r4: "\<exists>row.
      snd (confirm_chat_interaction_log [] (draft_with_sentiment '' Neutral'')) = [] @ [row]
      \<and> normalize_sentiment (draft_with_sentiment '' Neutral'') = Inr (hcpSentiment (columns row))"
    by blast
  from sentiment_normalized_after_strip [of ?bad "''Happy''" "[]"] h3 s3
  have r3: "confirm_chat_interaction_log [] ?bad =
      (Inl (BadRequest
              (''Invalid HCP Sentiment: '' @ [CHR 0x27] @ ''Happy'' @ [CHR 0x27] @
               ''. Must be Positive, Neutral, Negative, or empty/N/A.'')), [])"
    by simp
  from e have r5: "fst (confirm_chat_interaction_log [] (draft_with_sentiment '' Neutral'')) =
       Inr (LogConfirmation ''Log confirmed and saved successfully!'' 1)"
    by (metis fst_conv)
  from h1 s1 r1 h2 s2 r2 h3 s3 r3 r4 r5 show ?thesis
    by simp
qed

end
